theory Spec2Isabelle
  imports Complex_Main "HOL-Library.AList"
begin

section \<open>Python values, dictionaries and exceptions\<close>

text \<open>
  The fraud risk-scoring engine of \<^verbatim>\<open>ml-service/fraud\<close> works on JSON-like Python
  dictionaries.  A value is one of the JSON shapes, a NumPy scalar (\<open>VNp\<close>, the
  \<^verbatim>\<open>numpy.float64\<close> that pandas and NumPy reductions return) or a NaN.  Python and NumPy
  floats are modelled by exact reals.  A dictionary is an association list in insertion
  order with distinct keys; \<open>dict_set\<close> overwrites in place or appends, as Python does.
\<close>

datatype pyval =
    VNone
  | VBool bool
  | VInt int
  | VFloat real
  | VNp real
  | VNaN
  | VStr string
  | VList "pyval list"
  | VDict "(string \<times> pyval) list"

type_synonym pydict = "(string \<times> pyval) list"

datatype pyerr = TypeError | KeyError | AttributeError | ValueError | LibraryError

definition ebind :: "pyerr + 'a \<Rightarrow> ('a \<Rightarrow> pyerr + 'b) \<Rightarrow> pyerr + 'b" where
  "ebind m f = (case m of Inl e \<Rightarrow> Inl e | Inr x \<Rightarrow> f x)"

definition dict_get :: "pydict \<Rightarrow> string \<Rightarrow> pyval \<Rightarrow> pyval" where
  "dict_get d k dflt = (case map_of d k of None \<Rightarrow> dflt | Some v \<Rightarrow> v)"

definition dict_set :: "pydict \<Rightarrow> string \<Rightarrow> pyval \<Rightarrow> pydict" where
  "dict_set d k v = AList.update k v d"

definition dict_update :: "pydict \<Rightarrow> pydict \<Rightarrow> pydict" where
  "dict_update d e = fold (\<lambda>kv acc. dict_set acc (fst kv) (snd kv)) e d"

text \<open>The number a value stands for in arithmetic and comparisons (\<open>bool\<close> is a subclass
  of \<open>int\<close>); \<open>None\<close> for every value that is not a finite number.\<close>

fun num_of :: "pyval \<Rightarrow> real option" where
  "num_of (VBool b) = Some (if b then 1 else 0)"
| "num_of (VInt i) = Some (of_int i)"
| "num_of (VFloat r) = Some r"
| "num_of (VNp r) = Some r"
| "num_of _ = None"

text \<open>\<^verbatim>\<open>bool(v)\<close>, the truth value Python's \<^verbatim>\<open>if\<close> and \<^verbatim>\<open>and\<close> use.\<close>

fun truthy :: "pyval \<Rightarrow> bool" where
  "truthy VNone = False"
| "truthy (VBool b) = b"
| "truthy (VInt i) = (i \<noteq> 0)"
| "truthy (VFloat r) = (r \<noteq> 0)"
| "truthy (VNp r) = (r \<noteq> 0)"
| "truthy VNaN = True"
| "truthy (VStr s) = (s \<noteq> [])"
| "truthy (VList xs) = (xs \<noteq> [])"
| "truthy (VDict d) = (d \<noteq> [])"

text \<open>\<^verbatim>\<open>v > c\<close>, \<^verbatim>\<open>v < c\<close> and \<^verbatim>\<open>v >= c\<close> against a number \<open>c\<close>: an ordering comparison
  of a string, \<^verbatim>\<open>None\<close>, a list or a dict with a number raises \<^verbatim>\<open>TypeError\<close>, and every
  comparison with NaN is false.\<close>

definition py_gt :: "pyval \<Rightarrow> real \<Rightarrow> pyerr + bool" where
  "py_gt v c = (case num_of v of Some r \<Rightarrow> Inr (r > c)
                | None \<Rightarrow> if v = VNaN then Inr False else Inl TypeError)"

definition py_lt :: "pyval \<Rightarrow> real \<Rightarrow> pyerr + bool" where
  "py_lt v c = (case num_of v of Some r \<Rightarrow> Inr (r < c)
                | None \<Rightarrow> if v = VNaN then Inr False else Inl TypeError)"

text \<open>\<^verbatim>\<open>v == 1\<close>: never raises; \<^verbatim>\<open>True == 1\<close> and \<^verbatim>\<open>1.0 == 1\<close> hold.\<close>

definition py_eq1 :: "pyval \<Rightarrow> bool" where
  "py_eq1 v = (num_of v = Some 1)"

subsection \<open>Strings\<close>

text \<open>\<^verbatim>\<open>key.lower()\<close> on the ASCII letters feature names are made of.\<close>

definition lower_char :: "char \<Rightarrow> char" where
  "lower_char c =
     (case map_of (zip ''ABCDEFGHIJKLMNOPQRSTUVWXYZ'' ''abcdefghijklmnopqrstuvwxyz'') c of
        Some l \<Rightarrow> l | None \<Rightarrow> c)"

definition lower :: "string \<Rightarrow> string" where
  "lower s = map lower_char s"

text \<open>\<^verbatim>\<open>pattern in s\<close> on strings: \<open>pattern\<close> occurs as a contiguous substring.\<close>

fun is_prefix :: "string \<Rightarrow> string \<Rightarrow> bool" where
  "is_prefix [] s = True"
| "is_prefix (p # ps) [] = False"
| "is_prefix (p # ps) (c # cs) = (p = c \<and> is_prefix ps cs)"

fun str_contains :: "string \<Rightarrow> string \<Rightarrow> bool" where
  "str_contains p [] = (p = [])"
| "str_contains p (c # cs) = (is_prefix p (c # cs) \<or> str_contains p cs)"

text \<open>\<^verbatim>\<open>s.split(sep)\<close> for a one-character separator and \<^verbatim>\<open>sep.join(parts)\<close>.\<close>

fun split_on :: "char \<Rightarrow> string \<Rightarrow> string list" where
  "split_on sep [] = [[]]"
| "split_on sep (c # cs) =
     (if c = sep then [] # split_on sep cs
      else (case split_on sep cs of [] \<Rightarrow> [[c]] | w # ws \<Rightarrow> (c # w) # ws))"

fun join_with :: "string \<Rightarrow> string list \<Rightarrow> string" where
  "join_with sep [] = []"
| "join_with sep [w] = w"
| "join_with sep (w # ws) = w @ sep @ join_with sep ws"

text \<open>\<^verbatim>\<open>str(n)\<close> for a natural number, used by the f-string \<^verbatim>\<open>f'txn_{i}'\<close>.\<close>

definition digit_char :: "nat \<Rightarrow> char" where
  "digit_char d = ''0123456789'' ! d"

fun str_of_nat :: "nat \<Rightarrow> string" where
  "str_of_nat n = (if n < 10 then [digit_char n] else str_of_nat (n div 10) @ [digit_char (n mod 10)])"

declare str_of_nat.simps [simp del]

section \<open>The platform: clock and library calls\<close>

text \<open>
  The code reads the wall clock and calls library functions whose results it stores
  without inspecting them.  They are parameters of the model:
  \<^item> \<open>clock_now\<close> is \<^verbatim>\<open>datetime.now().timestamp()\<close>; one scoring call sees one instant;
  \<^item> \<open>now_isoformat\<close> is \<^verbatim>\<open>datetime.now().isoformat()\<close>;
  \<^item> \<open>fromtimestamp\<close> is \<^verbatim>\<open>datetime.fromtimestamp\<close> in the local time zone, \<open>None\<close> where
    it raises for an out-of-range instant;
  \<^item> \<open>parse_isoformat\<close> is \<^verbatim>\<open>datetime.fromisoformat(s).timestamp()\<close>, \<open>None\<close> where it raises;
  \<^item> \<open>np_log1p\<close> is \<^verbatim>\<open>numpy.log1p\<close>;
  \<^item> \<open>np_mean_nested\<close> is \<^verbatim>\<open>numpy.mean\<close> on a list that holds lists: the mean over the
    array NumPy builds from them, or the error it raises;
  \<^item> \<open>pd_std\<close> is the pandas sample standard deviation of a column;
  \<^item> \<open>pd_time_diff_mean\<close> is
    \<^verbatim>\<open>pd.to_datetime(col).diff().dt.total_seconds().mean()\<close>;
  \<^item> \<open>md5_prefix\<close> is \<^verbatim>\<open>int(hashlib.md5(s.encode()).hexdigest()[:8], 16)\<close>;
  \<^item> \<open>format_num\<close> is \<^verbatim>\<open>format(x, spec)\<close> on a number (\<open>None\<close> stands for NaN) and
    \<open>py_str\<close> is \<^verbatim>\<open>str(v)\<close>, both used by the f-strings of the explanation.
\<close>

record datetime =
  dt_hour :: int
  dt_weekday :: int
  dt_day :: int
  dt_month :: int

record platform =
  clock_now :: real
  now_isoformat :: string
  fromtimestamp :: "real \<Rightarrow> datetime option"
  parse_isoformat :: "string \<Rightarrow> real option"
  np_log1p :: "pyval \<Rightarrow> pyerr + pyval"
  np_mean_nested :: "pyval list \<Rightarrow> pyerr + pyval"
  pd_std :: "pyval list \<Rightarrow> pyval"
  pd_time_diff_mean :: "pyval list \<Rightarrow> pyerr + pyval"
  md5_prefix :: "string \<Rightarrow> nat"
  format_num :: "string \<Rightarrow> real option \<Rightarrow> string"
  py_str :: "pyval \<Rightarrow> string"

section \<open>Feature extraction (\<^verbatim>\<open>feature_extractor.py\<close>)\<close>

definition int_flag :: "bool \<Rightarrow> pyval" where
  "int_flag b = VInt (if b then 1 else 0)"

text \<open>\<^verbatim>\<open>_extract_transaction_features\<close>.\<close>

definition extract_transaction_features :: "platform \<Rightarrow> pydict \<Rightarrow> pyerr + pydict" where
  "extract_transaction_features P transaction =
     (let amount = dict_get transaction ''amount'' (VInt 0) in
      ebind (np_log1p P amount) (\<lambda>amount_log.
        let payment_method = dict_get transaction ''payment_method'' (VStr []) in
        Inr [(''transaction_amount'', amount),
             (''amount_log'', amount_log),
             (''is_first_transaction'', dict_get transaction ''is_first'' (VBool False)),
             (''transaction_count_today'', dict_get transaction ''daily_count'' (VInt 0)),
             (''payment_method_credit_card'', int_flag (payment_method = VStr ''credit_card'')),
             (''payment_method_digital'',
                int_flag (payment_method = VStr ''khalti'' \<or> payment_method = VStr ''esewa''))]))"

subsection \<open>The pandas calls of \<^verbatim>\<open>_extract_user_behavior_features\<close>\<close>

text \<open>\<^verbatim>\<open>'c' in df.columns\<close> and \<^verbatim>\<open>df['c']\<close> for \<^verbatim>\<open>df = pd.DataFrame(history)\<close>: the column
  exists when some row has the key, rows without it hold NaN, and a column no row has
  raises \<^verbatim>\<open>KeyError\<close>.\<close>

definition has_column :: "string \<Rightarrow> pydict list \<Rightarrow> bool" where
  "has_column c rows = list_ex (\<lambda>r. map_of r c \<noteq> None) rows"

definition column :: "string \<Rightarrow> pydict list \<Rightarrow> pyerr + pyval list" where
  "column c rows =
     (if has_column c rows then Inr (map (\<lambda>r. dict_get r c VNaN) rows) else Inl KeyError)"

text \<open>\<^verbatim>\<open>Series.mean()\<close>: the mean of the numbers of the column, skipping \<^verbatim>\<open>None\<close> and NaN;
  NaN when nothing is left; \<^verbatim>\<open>TypeError\<close> on a string, list or dict.\<close>

definition is_missing :: "pyval \<Rightarrow> bool" where
  "is_missing v = (v = VNone \<or> v = VNaN)"

definition pd_mean :: "pyval list \<Rightarrow> pyerr + pyval" where
  "pd_mean col =
     (let present = filter (\<lambda>v. \<not> is_missing v) col in
      if list_ex (\<lambda>v. num_of v = None) present then Inl TypeError
      else if present = [] then Inr VNaN
      else Inr (VNp (sum_list (map (\<lambda>v. the (num_of v)) present) / real (length present))))"

text \<open>\<^verbatim>\<open>current_amount / avg_amount\<close> with a \<^verbatim>\<open>numpy.float64\<close> divisor.\<close>

definition py_div_np :: "pyval \<Rightarrow> pyval \<Rightarrow> pyerr + pyval" where
  "py_div_np a b =
     (case (num_of a, num_of b) of
        (Some x, Some y) \<Rightarrow> Inr (VNp (x / y))
      | (None, Some y) \<Rightarrow> if a = VNaN then Inr VNaN else Inl TypeError
      | (_, None) \<Rightarrow> Inl TypeError)"

text \<open>\<^verbatim>\<open>[t for t in history if t.get('timestamp', 0) > bound]\<close>: the comparison may raise.\<close>

fun recent_since :: "real \<Rightarrow> pydict list \<Rightarrow> pyerr + pydict list" where
  "recent_since bound [] = Inr []"
| "recent_since bound (t # ts) =
     ebind (py_gt (dict_get t ''timestamp'' (VInt 0)) bound) (\<lambda>keep.
     ebind (recent_since bound ts) (\<lambda>rest. Inr (if keep then t # rest else rest)))"

text \<open>\<^verbatim>\<open>_extract_user_behavior_features\<close>.\<close>

definition extract_user_behavior_features ::
    "platform \<Rightarrow> pydict \<Rightarrow> pydict list \<Rightarrow> pyerr + pydict" where
  "extract_user_behavior_features P transaction history =
     (if history = [] then Inr []
      else
        ebind (column ''amount'' history) (\<lambda>amounts.
        ebind (pd_mean amounts) (\<lambda>avg_amount.
        let current_amount = dict_get transaction ''amount'' (VInt 0) in
        ebind (py_gt avg_amount 0) (\<lambda>positive.
        ebind (if positive then py_div_np current_amount avg_amount else Inr (VInt 10)) (\<lambda>ratio.
        ebind (if has_column ''timestamp'' history
               then ebind (column ''timestamp'' history) (\<lambda>stamps.
                    ebind (pd_time_diff_mean P stamps) (\<lambda>m.
                      Inr [(''avg_time_between_transactions'',
                            if length history > 1 then m else VInt 0)]))
               else Inr []) (\<lambda>time_features.
        ebind (column ''status'' history) (\<lambda>statuses.
        let failure_rate =
              VNp (real (length (filter (\<lambda>v. v = VStr ''failed'') statuses))
                   / real (length history));
            last_hour = clock_now P - 3600;
            last_24h = clock_now P - 86400 in
        ebind (recent_since last_hour history) (\<lambda>recent_hour.
        ebind (recent_since last_24h history) (\<lambda>recent_day.
          Inr ([(''avg_transaction_amount'', avg_amount),
                (''std_transaction_amount'', pd_std P amounts),
                (''total_transaction_count'', VInt (int (length history))),
                (''amount_deviation_ratio'', ratio)]
               @ time_features @
               [(''previous_failure_rate'', failure_rate),
                (''transactions_last_hour'', VInt (int (length recent_hour))),
                (''transactions_last_24h'', VInt (int (length recent_day))),
                (''hourly_velocity'', VFloat (real (length recent_hour) / 1)),
                (''daily_velocity'', VFloat (real (length recent_day) / 24))]))))))))))"

text \<open>\<^verbatim>\<open>_extract_temporal_features\<close>: \<^verbatim>\<open>datetime.fromtimestamp\<close> takes a number, raises
  \<^verbatim>\<open>TypeError\<close> on anything else and \<^verbatim>\<open>ValueError\<close> on NaN or an instant out of range.\<close>

definition local_datetime :: "platform \<Rightarrow> pyval \<Rightarrow> pyerr + datetime" where
  "local_datetime P timestamp =
     (case num_of timestamp of
        None \<Rightarrow> Inl (if timestamp = VNaN then ValueError else TypeError)
      | Some t \<Rightarrow> (case fromtimestamp P t of None \<Rightarrow> Inl ValueError | Some dt \<Rightarrow> Inr dt))"

definition extract_temporal_features :: "platform \<Rightarrow> pydict \<Rightarrow> pyerr + pydict" where
  "extract_temporal_features P transaction =
     (let timestamp = dict_get transaction ''timestamp'' (VFloat (clock_now P)) in
      ebind (local_datetime P timestamp) (\<lambda>dt.
        Inr [(''hour_of_day'', VInt (dt_hour dt)),
             (''day_of_week'', VInt (dt_weekday dt)),
             (''day_of_month'', VInt (dt_day dt)),
             (''is_weekend'', int_flag (dt_weekday dt \<ge> 5)),
             (''is_night_hours'', int_flag (0 \<le> dt_hour dt \<and> dt_hour dt < 6)),
             (''is_business_hours'', int_flag (9 \<le> dt_hour dt \<and> dt_hour dt < 17)),
             (''month'', VInt (dt_month dt)),
             (''is_holiday_season'', int_flag (dt_month dt = 11 \<or> dt_month dt = 12))]))"

text \<open>\<^verbatim>\<open>_extract_technical_features\<close>: \<^verbatim>\<open>.get\<close> on a \<^verbatim>\<open>device_info\<close> that is not a dict and
  \<^verbatim>\<open>.split\<close> on a truthy \<^verbatim>\<open>ip_address\<close> that is not a string raise \<^verbatim>\<open>AttributeError\<close>.\<close>

definition extract_technical_features :: "platform \<Rightarrow> pydict \<Rightarrow> pyerr + pydict" where
  "extract_technical_features P transaction =
     (let device_info = dict_get transaction ''device_info'' (VDict []);
          ip_address = dict_get transaction ''ip_address'' (VStr []) in
      ebind (case device_info of VDict d \<Rightarrow> Inr d | _ \<Rightarrow> Inl AttributeError) (\<lambda>d.
      ebind (if truthy ip_address
             then (case ip_address of
                     VStr ip \<Rightarrow>
                       Inr [(''ip_prefix'', VStr (join_with ''.'' (take 2 (split_on CHR ''.'' ip)))),
                            (''ip_hash'', VInt (int (md5_prefix P ip mod 10000)))]
                   | _ \<Rightarrow> Inl AttributeError)
             else Inr []) (\<lambda>ip_features.
      let session_duration = dict_get transaction ''session_duration'' (VInt 0) in
      ebind (py_lt session_duration 60) (\<lambda>short.
        Inr ([(''device_type'', dict_get d ''type'' (VStr ''unknown'')),
              (''browser'', dict_get d ''browser'' (VStr ''unknown'')),
              (''os'', dict_get d ''os'' (VStr ''unknown''))]
             @ ip_features @
             [(''session_duration'', session_duration),
              (''short_session'', int_flag short)])))))"

text \<open>\<^verbatim>\<open>_calculate_derived_features\<close>: six trigger flags and their weighted sum, capped.
  \<^verbatim>\<open>a and b > 100\<close> evaluates the comparison only when \<open>a\<close> is truthy.\<close>

record triggers =
  t_deviation :: bool
  t_velocity :: bool
  t_night :: bool
  t_short :: bool
  t_failure :: bool
  t_new_user :: bool

definition derived_triggers :: "pydict \<Rightarrow> pyerr + triggers" where
  "derived_triggers features =
     ebind (py_gt (dict_get features ''amount_deviation_ratio'' (VInt 1)) 3) (\<lambda>dev.
     ebind (py_gt (dict_get features ''hourly_velocity'' (VInt 0)) 5) (\<lambda>vel.
     ebind (py_gt (dict_get features ''previous_failure_rate'' (VInt 0)) 0.3) (\<lambda>fail.
     ebind (if truthy (dict_get features ''is_first_transaction'' (VBool False))
            then py_gt (dict_get features ''transaction_amount'' (VInt 0)) 100
            else Inr False) (\<lambda>new_user.
       Inr \<lparr>t_deviation = dev, t_velocity = vel,
            t_night = py_eq1 (dict_get features ''is_night_hours'' (VInt 0)),
            t_short = py_eq1 (dict_get features ''short_session'' (VInt 0)),
            t_failure = fail, t_new_user = new_user\<rparr>))))"

definition weight :: "bool \<Rightarrow> int \<Rightarrow> int" where
  "weight b w = (if b then w else 0)"

definition composite_of :: "triggers \<Rightarrow> int" where
  "composite_of t =
     min (weight (t_deviation t) 30 + weight (t_velocity t) 25 + weight (t_night t) 15
          + weight (t_short t) 20 + weight (t_failure t) 25 + weight (t_new_user t) 35) 100"

definition calculate_derived_features :: "pydict \<Rightarrow> pyerr + pydict" where
  "calculate_derived_features features =
     ebind (derived_triggers features) (\<lambda>t.
       Inr [(''high_amount_deviation'', int_flag (t_deviation t)),
            (''high_hourly_velocity'', int_flag (t_velocity t)),
            (''night_transaction'', int_flag (t_night t)),
            (''short_session_flag'', int_flag (t_short t)),
            (''high_failure_history'', int_flag (t_failure t)),
            (''new_user_high_amount'', int_flag (t_new_user t)),
            (''composite_risk_score'', VInt (composite_of t))])"

text \<open>\<^verbatim>\<open>extract_features\<close>: the groups are merged in order; the behaviour group is skipped
  for an empty (or absent) history.\<close>

definition extract_features :: "platform \<Rightarrow> pydict \<Rightarrow> pydict list \<Rightarrow> pyerr + pydict" where
  "extract_features P transaction_data user_history =
     ebind (extract_transaction_features P transaction_data) (\<lambda>f1.
     ebind (if user_history \<noteq> []
            then ebind (extract_user_behavior_features P transaction_data user_history)
                   (\<lambda>b. Inr (dict_update f1 b))
            else Inr f1) (\<lambda>f2.
     ebind (extract_temporal_features P transaction_data) (\<lambda>t.
     let f3 = dict_update f2 t in
     ebind (extract_technical_features P transaction_data) (\<lambda>d.
     let f4 = dict_update f3 d in
     ebind (calculate_derived_features f4) (\<lambda>derived.
       Inr (dict_update f4 derived))))))"

section \<open>The predictor (\<^verbatim>\<open>predict.py\<close>)\<close>

subsection \<open>State\<close>

text \<open>
  A classifier is an opaque library object: what the code uses of it is whether it has a
  \<^verbatim>\<open>predict_proba\<close> attribute, the number \<^verbatim>\<open>float(predict_proba(df)[0][1])\<close> and the label
  \<^verbatim>\<open>predict(df)[0]\<close> for a feature row (\<open>None\<close> when the call raises), its truth value and the
  name of its type.  The trainer pickles a dictionary around the classifier (\<open>model_info\<close>).
  \<^verbatim>\<open>pickle.load\<close> returns the object \<^verbatim>\<open>pickle.dump\<close> was given, so a file holds the object.
\<close>

record classifier =
  clf_type_name :: string
  clf_truthy :: bool
  clf_predict_proba :: "(pydict \<Rightarrow> real option) option"
  clf_predict :: "pydict \<Rightarrow> pyval option"

record model_info =
  mi_model :: classifier
  mi_feature_names :: "string list"
  mi_trained_at :: string
  mi_model_type :: string
  mi_config :: pydict

datatype artifact = Classifier classifier | ModelInfo model_info

text \<open>The anomaly detector as the batch loop uses it: \<^verbatim>\<open>_features_to_array\<close> followed by
  \<^verbatim>\<open>detect\<close>, giving \<^verbatim>\<open>(bool(anomalies[0]), float(scores[0]))\<close>, or \<open>None\<close> when the array is
  \<^verbatim>\<open>None\<close> or anything raises (the detector raises until it has been trained).\<close>

type_synonym detector = "pydict \<Rightarrow> (bool \<times> real) option"

record predictor =
  config :: pydict
  model :: "artifact option"
  model_loaded :: bool
  model_path :: "string option"
  feature_extractor :: bool
  anomaly_detector :: "detector option"

definition default_config :: pydict where
  "default_config =
     [(''threshold'', VFloat 0.8),
      (''risk_categories'',
         VDict [(''LOW'', VFloat 0.0), (''MEDIUM'', VFloat 0.3),
                (''HIGH'', VFloat 0.7), (''CRITICAL'', VFloat 0.9)]),
      (''feature_config'',
         VDict [(''include_user_history'', VBool True),
                (''include_temporal_features'', VBool True),
                (''include_device_features'', VBool True)])]"

text \<open>The predictor \<^verbatim>\<open>__init__\<close> builds when no model file is found: default
  configuration, no model, feature extractor and (untrained) anomaly detector present.\<close>

definition fresh_predictor :: predictor where
  "fresh_predictor =
     \<lparr>config = default_config, model = None, model_loaded = False, model_path = None,
      feature_extractor = True, anomaly_detector = Some (\<lambda>features. None)\<rparr>"

definition artifact_truthy :: "artifact \<Rightarrow> bool" where
  "artifact_truthy a = (case a of Classifier c \<Rightarrow> clf_truthy c | ModelInfo i \<Rightarrow> True)"

subsection \<open>Rule-based prediction\<close>

text \<open>\<^verbatim>\<open>probability >= self.config['threshold']\<close>.\<close>

definition meets_threshold :: "pydict \<Rightarrow> real \<Rightarrow> pyerr + bool" where
  "meets_threshold cfg probability =
     (case map_of cfg ''threshold'' of
        None \<Rightarrow> Inl KeyError
      | Some v \<Rightarrow> (case num_of v of Some t \<Rightarrow> Inr (probability \<ge> t)
                   | None \<Rightarrow> if v = VNaN then Inr False else Inl TypeError))"

text \<open>The rules of \<^verbatim>\<open>_rule_based_prediction\<close> that fire, in the order the code appends them,
  each with the weight it adds to \<^verbatim>\<open>risk_score\<close>.\<close>

definition rule_hits :: "pydict \<Rightarrow> pyerr + (string \<times> int) list" where
  "rule_hits features =
     (let amount_deviation = dict_get features ''amount_deviation_ratio'' (VInt 1);
          hourly_velocity = dict_get features ''hourly_velocity'' (VInt 0);
          failure_rate = dict_get features ''previous_failure_rate'' (VInt 0) in
      ebind (py_gt amount_deviation 5) (\<lambda>dev5.
      ebind (if dev5 then Inr False else py_gt amount_deviation 3) (\<lambda>dev3.
      ebind (py_gt hourly_velocity 10) (\<lambda>vel10.
      ebind (if vel10 then Inr False else py_gt hourly_velocity 5) (\<lambda>vel5.
      ebind (if truthy (dict_get features ''is_first_transaction'' (VBool False))
             then py_gt (dict_get features ''transaction_amount'' (VInt 0)) 100
             else Inr False) (\<lambda>new_user.
      ebind (py_gt failure_rate 0.5) (\<lambda>fail.
        Inr ((if dev5 then [(''EXTREME_AMOUNT_DEVIATION'', 40)]
              else if dev3 then [(''HIGH_AMOUNT_DEVIATION'', 25)] else [])
           @ (if vel10 then [(''EXTREME_TRANSACTION_VELOCITY'', 35)]
              else if vel5 then [(''HIGH_TRANSACTION_VELOCITY'', 20)] else [])
           @ (if py_eq1 (dict_get features ''is_night_hours'' (VInt 0))
              then [(''NIGHT_TRANSACTION'', 15)] else [])
           @ (if py_eq1 (dict_get features ''short_session'' (VInt 0))
              then [(''SHORT_SESSION'', 20)] else [])
           @ (if new_user then [(''NEW_USER_HIGH_AMOUNT'', 30)] else [])
           @ (if fail then [(''HIGH_FAILURE_HISTORY'', 25)] else [])))))))))"

type_synonym prediction = "bool \<times> real \<times> pydict"

definition rule_based_prediction :: "predictor \<Rightarrow> pydict \<Rightarrow> pyerr + prediction" where
  "rule_based_prediction st features =
     ebind (rule_hits features) (\<lambda>hits.
       let risk_factors = map fst hits;
           risk_score = sum_list (map snd hits);
           probability = min (real_of_int risk_score / 100) 1.0 in
       ebind (meets_threshold (config st) probability) (\<lambda>is_fraud.
         Inr (is_fraud, probability,
              [(''method'', VStr ''rule_based''),
               (''risk_factors'', VList (map VStr risk_factors)),
               (''risk_score'', VInt risk_score),
               (''rules_applied'', VInt (int (length risk_factors))),
               (''confidence'', VFloat (probability * 100))])))"

subsection \<open>Model-based prediction and its explanation\<close>

text \<open>\<^verbatim>\<open>_ensure_feature_columns\<close>: every expected column the row lacks is added as 0.\<close>

definition expected_columns :: "string list" where
  "expected_columns =
     [''transaction_amount'', ''amount_log'', ''hour_of_day'', ''day_of_week'',
      ''is_weekend'', ''is_night_hours'', ''session_duration'', ''short_session'',
      ''total_transaction_count'', ''amount_deviation_ratio'', ''hourly_velocity'',
      ''previous_failure_rate'', ''composite_risk_score'']"

definition ensure_feature_columns :: "pydict \<Rightarrow> pydict" where
  "ensure_feature_columns df =
     fold (\<lambda>col acc. if map_of acc col = None then dict_set acc col (VInt 0) else acc)
          expected_columns df"

text \<open>An f-string field with a format specification: numbers and NaN are rendered by the
  platform, a string raises \<^verbatim>\<open>ValueError\<close>, anything else \<^verbatim>\<open>TypeError\<close>.\<close>

definition py_format :: "platform \<Rightarrow> string \<Rightarrow> pyval \<Rightarrow> pyerr + string" where
  "py_format P spec v =
     (case num_of v of
        Some r \<Rightarrow> Inr (format_num P spec (Some r))
      | None \<Rightarrow> (case v of VNaN \<Rightarrow> Inr (format_num P spec None)
                 | VStr s \<Rightarrow> Inl ValueError
                 | _ \<Rightarrow> Inl TypeError))"

text \<open>The factors \<^verbatim>\<open>explain_prediction\<close> appends, in order: sentence, raw contribution and
  risk-factor tag.\<close>

definition flag_set :: "pydict \<Rightarrow> string \<Rightarrow> bool" where
  "flag_set features k = py_eq1 (dict_get features k (VInt 0))"

definition explain_items :: "platform \<Rightarrow> pydict \<Rightarrow> pyerr + (string \<times> int \<times> string) list" where
  "explain_items P features =
     ebind (if flag_set features ''high_amount_deviation''
            then ebind (py_format P ''.1f'' (dict_get features ''amount_deviation_ratio'' (VInt 1)))
                   (\<lambda>s. Inr [(''Amount is '' @ s @ ''x higher than user'' @ [CHR 0x27] @ ''s average'',
                               30, ''HIGH_AMOUNT_DEVIATION'')])
            else Inr []) (\<lambda>e1.
     ebind (if flag_set features ''high_hourly_velocity''
            then ebind (py_format P ''.1f'' (dict_get features ''hourly_velocity'' (VInt 0)))
                   (\<lambda>s. Inr [(''High transaction frequency ('' @ s @ ''/hour)'',
                               25, ''HIGH_TRANSACTION_VELOCITY'')])
            else Inr []) (\<lambda>e2.
     let e3 = (if flag_set features ''night_transaction''
               then [(''Transaction occurred during unusual hours (''
                        @ py_str P (dict_get features ''hour_of_day'' (VInt 0)) @ '':00)'',
                      15, ''NIGHT_TRANSACTION'')]
               else []);
         e4 = (if flag_set features ''short_session_flag''
               then [(''Very short session duration (''
                        @ py_str P (dict_get features ''session_duration'' (VInt 0)) @ ''s)'',
                      20, ''SHORT_SESSION'')]
               else []) in
     ebind (if flag_set features ''high_failure_history''
            then ebind (py_format P ''.0%'' (dict_get features ''previous_failure_rate'' (VInt 0)))
                   (\<lambda>s. Inr [(''High previous failure rate ('' @ s @ '')'',
                               25, ''HIGH_FAILURE_HISTORY'')])
            else Inr []) (\<lambda>e5.
     ebind (if flag_set features ''new_user_high_amount''
            then ebind (py_format P ''.2f'' (dict_get features ''transaction_amount'' (VInt 0)))
                   (\<lambda>s. Inr [(''New user with high amount ($'' @ s @ '')'',
                               35, ''NEW_USER_HIGH_AMOUNT'')])
            else Inr []) (\<lambda>e6.
     let e7 = (if flag_set features ''device_anomaly''
               then [(''Unusual device or location pattern'', 20, ''DEVICE_ANOMALY'')]
               else []) in
     Inr (e1 @ e2 @ e3 @ e4 @ e5 @ e6 @ e7)))))"

definition risk_summary :: "real \<Rightarrow> string" where
  "risk_summary probability =
     (if probability \<ge> 0.9 then ''Very high fraud risk''
      else if probability \<ge> 0.7 then ''High fraud risk''
      else if probability \<ge> 0.5 then ''Moderate fraud risk''
      else ''Low fraud risk'')"

definition explain_prediction :: "platform \<Rightarrow> pydict \<Rightarrow> real \<Rightarrow> pyerr + pydict" where
  "explain_prediction P features probability =
     ebind (explain_items P features) (\<lambda>items.
       let raw = map (\<lambda>it. fst (snd it)) items;
           total_contribution = sum_list raw;
           contributions =
             (if total_contribution > 0
              then map (\<lambda>c. VFloat ((real_of_int c / real_of_int total_contribution) * 100)) raw
              else map VInt raw) in
       Inr ([(''factors'', VList (map (\<lambda>it. VStr (fst it)) items)),
             (''contributions'', VList contributions),
             (''risk_factors'', VList (map (\<lambda>it. VStr (snd (snd it))) items)),
             (''confidence'', if probability \<noteq> 0 then VFloat (probability * 100) else VInt 0)]
            @ (if probability \<noteq> 0 then [(''summary'', VStr (risk_summary probability))] else [])))"

text \<open>What invoking the held object gives: the trainer's dictionary has neither
  \<^verbatim>\<open>predict_proba\<close> nor \<^verbatim>\<open>predict\<close>, a classifier without \<^verbatim>\<open>predict_proba\<close> gives 1.0 for the
  label 1 and 0.0 otherwise.\<close>

definition model_probability :: "artifact \<Rightarrow> pydict \<Rightarrow> pyerr + real" where
  "model_probability m feature_df =
     (case m of
        ModelInfo i \<Rightarrow> Inl AttributeError
      | Classifier c \<Rightarrow>
          (case clf_predict_proba c of
             Some proba \<Rightarrow> (case proba feature_df of None \<Rightarrow> Inl LibraryError | Some p \<Rightarrow> Inr p)
           | None \<Rightarrow> (case clf_predict c feature_df of
                        None \<Rightarrow> Inl LibraryError
                      | Some label \<Rightarrow> Inr (if py_eq1 label then 1.0 else 0.0))))"

text \<open>The body of the \<^verbatim>\<open>try\<close> block of \<^verbatim>\<open>predict\<close>, and \<^verbatim>\<open>predict\<close>: whatever the body
  raises, the handler returns the rule-based prediction.  The predictor is passed in and
  returned, as every method of the class could assign to \<^verbatim>\<open>self\<close>.\<close>

definition uses_model :: "predictor \<Rightarrow> bool" where
  "uses_model st = (model_loaded st \<and> (case model st of None \<Rightarrow> False | Some m \<Rightarrow> artifact_truthy m))"

definition predict_try :: "platform \<Rightarrow> predictor \<Rightarrow> pydict \<Rightarrow> pyerr + prediction" where
  "predict_try P st features =
     (if uses_model st
      then
        (let feature_df = ensure_feature_columns features in
         ebind (model_probability (the (model st)) feature_df) (\<lambda>fraud_probability.
         ebind (meets_threshold (config st) fraud_probability) (\<lambda>is_fraud.
         ebind (explain_prediction P features fraud_probability) (\<lambda>explanation.
           Inr (is_fraud, fraud_probability, explanation)))))
      else rule_based_prediction st features)"

definition predict :: "platform \<Rightarrow> predictor \<Rightarrow> pydict \<Rightarrow> (pyerr + prediction) \<times> predictor" where
  "predict P st features =
     (case predict_try P st features of
        Inr r \<Rightarrow> (Inr r, st)
      | Inl e \<Rightarrow> (rule_based_prediction st features, st))"

subsection \<open>Risk score, risk level, recommended action\<close>

definition calculate_risk_score :: "pydict \<Rightarrow> real \<Rightarrow> pyerr + real" where
  "calculate_risk_score features probability =
     (let base_score = probability * 100;
          amount = dict_get features ''transaction_amount'' (VInt 0) in
      ebind (py_gt amount 1000) (\<lambda>above_1000.
      ebind (if above_1000 then Inr False else py_gt amount 500) (\<lambda>above_500.
        let adjusted = (if above_1000 then base_score * 1.2
                        else if above_500 then base_score * 1.1 else base_score);
            scaled = (if py_eq1 (dict_get features ''is_first_transaction'' (VInt 0))
                      then adjusted * 1.3 else adjusted) in
        Inr (min scaled 100))))"

datatype risk_level = LOW | MEDIUM | HIGH | CRITICAL

definition determine_risk_level :: "real \<Rightarrow> risk_level" where
  "determine_risk_level risk_score =
     (if risk_score \<ge> 90 then CRITICAL
      else if risk_score \<ge> 70 then HIGH
      else if risk_score \<ge> 30 then MEDIUM
      else LOW)"

record recommended =
  action :: string
  reason :: string
  steps :: "string list"

definition get_recommended_action :: "bool \<Rightarrow> risk_level \<Rightarrow> recommended" where
  "get_recommended_action is_fraud level =
     (if is_fraud \<or> level = CRITICAL then
        \<lparr>action = ''BLOCK'', reason = ''High fraud probability'',
         steps = [''Block transaction'', ''Flag account'', ''Notify security team'']\<rparr>
      else if level = HIGH then
        \<lparr>action = ''REVIEW'', reason = ''Suspicious activity detected'',
         steps = [''Require additional verification'', ''Review manually'', ''Monitor account'']\<rparr>
      else if level = MEDIUM then
        \<lparr>action = ''MONITOR'', reason = ''Moderate risk detected'',
         steps = [''Allow transaction'', ''Monitor for patterns'', ''Update risk profile'']\<rparr>
      else
        \<lparr>action = ''ALLOW'', reason = ''Low risk transaction'',
         steps = [''Process normally'']\<rparr>)"

subsection \<open>Sanitising the features for output\<close>

definition sensitive_patterns :: "string list" where
  "sensitive_patterns = [''password'', ''token'', ''secret'', ''key'', ''cvv'', ''pin'']"

definition is_sensitive :: "string \<Rightarrow> bool" where
  "is_sensitive k = list_ex (\<lambda>pattern. str_contains pattern (lower k)) sensitive_patterns"

text \<open>\<^verbatim>\<open>isinstance(value, (dict, list))\<close>, and \<^verbatim>\<open>value.item()\<close> for the values that have it.\<close>

fun is_complex :: "pyval \<Rightarrow> bool" where
  "is_complex (VList xs) = True"
| "is_complex (VDict d) = True"
| "is_complex _ = False"

fun unwrap_numpy :: "pyval \<Rightarrow> pyval" where
  "unwrap_numpy (VNp r) = VFloat r"
| "unwrap_numpy v = v"

definition sanitize_entry :: "string \<times> pyval \<Rightarrow> pydict \<Rightarrow> pydict" where
  "sanitize_entry kv sanitized =
     (if is_complex (snd kv) then sanitized
      else if is_sensitive (fst kv) then dict_set sanitized (fst kv) (VStr ''[REDACTED]'')
      else dict_set sanitized (fst kv) (unwrap_numpy (snd kv)))"

definition sanitize_features :: "pydict \<Rightarrow> pydict" where
  "sanitize_features features = fold sanitize_entry features []"

subsection \<open>Feature extraction without the extractor (\<^verbatim>\<open>_extract_basic_features\<close>)\<close>

text \<open>\<^verbatim>\<open>timestamp.replace('Z', '+00:00')\<close>.\<close>

definition replace_Z :: "string \<Rightarrow> string" where
  "replace_Z s = concat (map (\<lambda>c. if c = CHR ''Z'' then ''+00:00'' else [c]) s)"

text \<open>\<^verbatim>\<open>np.mean\<close> of a list: with a list among the entries it is the platform's mean over
  the nested array; otherwise \<^verbatim>\<open>TypeError\<close> on a string, dict or \<^verbatim>\<open>None\<close>, NaN as soon as
  one entry is NaN, and else the mean of the numbers.\<close>

fun is_list :: "pyval \<Rightarrow> bool" where
  "is_list (VList xs) = True"
| "is_list _ = False"

definition np_mean :: "platform \<Rightarrow> pyval list \<Rightarrow> pyerr + pyval" where
  "np_mean P vs =
     (if list_ex is_list vs then np_mean_nested P vs
      else if list_ex (\<lambda>v. num_of v = None \<and> v \<noteq> VNaN) vs then Inl TypeError
      else if list_ex (\<lambda>v. v = VNaN) vs \<or> vs = [] then Inr VNaN
      else Inr (VNp (sum_list (map (\<lambda>v. the (num_of v)) vs) / real (length vs))))"

definition basic_history_features :: "platform \<Rightarrow> pydict \<Rightarrow> pydict list \<Rightarrow> pyerr + pydict" where
  "basic_history_features P transaction history =
     (if history \<noteq> [] then
        (let amounts = filter truthy (map (\<lambda>h. dict_get h ''amount'' VNone) history) in
         ebind (if amounts \<noteq> [] then
                  ebind (np_mean P amounts) (\<lambda>avg.
                  ebind (py_gt avg 0) (\<lambda>positive.
                  ebind (if positive
                         then py_div_np (dict_get transaction ''amount'' (VInt 0)) avg
                         else Inr (VInt 10)) (\<lambda>ratio.
                    Inr [(''avg_transaction_amount'', avg), (''amount_deviation_ratio'', ratio)])))
                else Inr [(''amount_deviation_ratio'', VInt 10)]) (\<lambda>amount_features.
         ebind (recent_since (clock_now P - 3600) history) (\<lambda>recent_hour.
         ebind (recent_since (clock_now P - 86400) history) (\<lambda>recent_day.
         let failures = filter (\<lambda>h. dict_get h ''status'' VNone = VStr ''failed'') history in
           Inr ([(''total_transaction_count'', VInt (int (length history)))]
                @ amount_features @
                [(''transactions_last_hour'', VInt (int (length recent_hour))),
                 (''transactions_last_24h'', VInt (int (length recent_day))),
                 (''hourly_velocity'', VFloat (real (length recent_hour) / 1)),
                 (''daily_velocity'', VFloat (real (length recent_day) / 24)),
                 (''previous_failure_rate'',
                    VFloat (real (length failures) / real (length history)))])))))
      else
        Inr [(''is_first_transaction'', VInt 1),
             (''total_transaction_count'', VInt 0),
             (''amount_deviation_ratio'', VInt 10),
             (''transactions_last_hour'', VInt 0),
             (''transactions_last_24h'', VInt 0),
             (''hourly_velocity'', VInt 0),
             (''daily_velocity'', VInt 0),
             (''previous_failure_rate'', VInt 0)])"

definition basic_derived_features :: "pydict \<Rightarrow> pyerr + pydict" where
  "basic_derived_features features =
     ebind (py_gt (dict_get features ''amount_deviation_ratio'' (VInt 1)) 3) (\<lambda>dev.
     ebind (py_gt (dict_get features ''hourly_velocity'' (VInt 0)) 5) (\<lambda>vel.
     ebind (py_gt (dict_get features ''previous_failure_rate'' (VInt 0)) 0.3) (\<lambda>fail.
     ebind (if py_eq1 (dict_get features ''is_first_transaction'' (VInt 0))
            then py_gt (dict_get features ''transaction_amount'' (VInt 0)) 100
            else Inr False) (\<lambda>new_user.
       let t = \<lparr>t_deviation = dev, t_velocity = vel,
                t_night = py_eq1 (dict_get features ''is_night_hours'' (VInt 0)),
                t_short = py_eq1 (dict_get features ''short_session'' (VInt 0)),
                t_failure = fail, t_new_user = new_user\<rparr> in
       Inr [(''high_amount_deviation'', int_flag (t_deviation t)),
            (''high_hourly_velocity'', int_flag (t_velocity t)),
            (''night_transaction'', int_flag (t_night t)),
            (''short_session_flag'', int_flag (t_short t)),
            (''high_failure_history'', int_flag (t_failure t)),
            (''new_user_high_amount'', int_flag (t_new_user t)),
            (''composite_risk_score'', VInt (composite_of t))]))))"

definition extract_basic_features :: "platform \<Rightarrow> pydict \<Rightarrow> pydict list \<Rightarrow> pyerr + pydict" where
  "extract_basic_features P transaction history =
     (let amount = dict_get transaction ''amount'' (VInt 0) in
      ebind (np_log1p P amount) (\<lambda>amount_log.
      let payment_method = dict_get transaction ''payment_method'' (VStr []);
          timestamp = dict_get transaction ''timestamp'' (VFloat (clock_now P));
          timestamp' = (case timestamp of
                          VStr s \<Rightarrow> (case parse_isoformat P (replace_Z s) of
                                       Some t \<Rightarrow> VFloat t | None \<Rightarrow> VStr s)
                        | _ \<Rightarrow> timestamp) in
      ebind (local_datetime P timestamp') (\<lambda>dt.
      ebind (case dict_get transaction ''device_info'' (VDict []) of
               VDict d \<Rightarrow> Inr d | _ \<Rightarrow> Inl AttributeError) (\<lambda>device_info.
      let session_duration = dict_get transaction ''session_duration'' (VInt 0) in
      ebind (py_lt session_duration 60) (\<lambda>short.
      let f1 = [(''transaction_amount'', amount),
                (''amount_log'', amount_log),
                (''payment_method_credit_card'', int_flag (payment_method = VStr ''credit_card'')),
                (''payment_method_digital'',
                   int_flag (payment_method = VStr ''khalti'' \<or> payment_method = VStr ''esewa'')),
                (''hour_of_day'', VInt (dt_hour dt)),
                (''day_of_week'', VInt (dt_weekday dt)),
                (''is_weekend'', int_flag (dt_weekday dt \<ge> 5)),
                (''is_night_hours'', int_flag (0 \<le> dt_hour dt \<and> dt_hour dt < 6)),
                (''device_type_mobile'',
                   int_flag (dict_get device_info ''type'' VNone = VStr ''mobile'')),
                (''browser_chrome'',
                   int_flag (dict_get device_info ''browser'' VNone = VStr ''chrome'')),
                (''session_duration'', session_duration),
                (''short_session'', int_flag short)] in
      ebind (basic_history_features P transaction history) (\<lambda>h.
      let f2 = dict_update f1 h in
      ebind (basic_derived_features f2) (\<lambda>derived.
        Inr (dict_update f2 derived))))))))"

subsection \<open>Batch prediction (\<^verbatim>\<open>predict_batch\<close>)\<close>

text \<open>One entry of the result list: a scored transaction, or the error entry
  \<^verbatim>\<open>{'transaction_id': ..., 'error': str(e), 'success': False}\<close>.\<close>

record scored =
  r_transaction_id :: pyval
  r_user_id :: pyval
  r_amount :: pyval
  r_timestamp :: pyval
  r_is_fraud :: bool
  r_probability :: real
  r_confidence :: real
  r_score :: real
  r_level :: risk_level
  r_factors :: pyval
  r_explanation :: pydict
  r_recommended_action :: recommended
  r_features :: pydict
  r_anomaly_detection :: "(bool \<times> real) option"

datatype batch_entry =
    Scored (the_scored: scored)
  | Failed (failed_id: pyval) (failed_error: pyerr)

text \<open>\<^verbatim>\<open>transaction.get('id', f'txn_{i}')\<close>.\<close>

definition transaction_id_of :: "nat \<Rightarrow> pydict \<Rightarrow> pyval" where
  "transaction_id_of i transaction = dict_get transaction ''id'' (VStr (''txn_'' @ str_of_nat i))"

text \<open>The history looked up for a transaction: \<^verbatim>\<open>user_history[user_id]\<close> when the mapping is
  not empty, \<^verbatim>\<open>user_id\<close> is truthy and is a key; a truthy list or dict as \<^verbatim>\<open>user_id\<close> is
  unhashable and raises \<^verbatim>\<open>TypeError\<close>.  The keys of the mapping are strings.\<close>

type_synonym histories = "(string \<times> pydict list) list"

definition history_for :: "histories \<Rightarrow> pyval \<Rightarrow> pyerr + pydict list" where
  "history_for user_history user_id =
     (if user_history \<noteq> [] \<and> truthy user_id then
        (case user_id of
           VStr u \<Rightarrow> Inr (case map_of user_history u of Some h \<Rightarrow> h | None \<Rightarrow> [])
         | VList xs \<Rightarrow> Inl TypeError
         | VDict d \<Rightarrow> Inl TypeError
         | _ \<Rightarrow> Inr [])
      else Inr [])"

text \<open>The body of the \<^verbatim>\<open>try\<close> block of the loop, for the transaction at index \<open>i\<close>.\<close>

definition score_transaction ::
    "platform \<Rightarrow> predictor \<Rightarrow> histories \<Rightarrow> nat \<Rightarrow> pydict \<Rightarrow> (pyerr + scored) \<times> predictor" where
  "score_transaction P st user_history i transaction =
     (let user_id = dict_get transaction ''user_id'' VNone in
      case ebind (history_for user_history user_id) (\<lambda>history.
             if feature_extractor st then extract_features P transaction history
             else extract_basic_features P transaction history) of
        Inl e \<Rightarrow> (Inl e, st)
      | Inr features \<Rightarrow>
          (case predict P st features of
             (Inl e, st') \<Rightarrow> (Inl e, st')
           | (Inr (is_fraud, probability, explanation), st') \<Rightarrow>
               (case calculate_risk_score features probability of
                  Inl e \<Rightarrow> (Inl e, st')
                | Inr risk_score \<Rightarrow>
                    (let risk_level = determine_risk_level risk_score in
                     (Inr \<lparr>r_transaction_id = transaction_id_of i transaction,
                           r_user_id = user_id,
                           r_amount = dict_get transaction ''amount'' VNone,
                           r_timestamp = dict_get transaction ''timestamp'' (VStr (now_isoformat P)),
                           r_is_fraud = is_fraud,
                           r_probability = probability,
                           r_confidence = min (probability * 100) 100,
                           r_score = risk_score,
                           r_level = risk_level,
                           r_factors = dict_get explanation ''risk_factors'' (VList []),
                           r_explanation = explanation,
                           r_recommended_action = get_recommended_action is_fraud risk_level,
                           r_features = sanitize_features features,
                           r_anomaly_detection =
                             (case anomaly_detector st' of
                                Some detect \<Rightarrow> if model_loaded st' then detect features else None
                              | None \<Rightarrow> None)\<rparr>,
                      st')))))"

text \<open>One iteration: the \<^verbatim>\<open>except\<close> branch turns any failure into an error entry.\<close>

definition batch_step ::
    "platform \<Rightarrow> predictor \<Rightarrow> histories \<Rightarrow> nat \<Rightarrow> pydict \<Rightarrow> batch_entry \<times> predictor" where
  "batch_step P st user_history i transaction =
     (case score_transaction P st user_history i transaction of
        (Inr result, st') \<Rightarrow> (Scored result, st')
      | (Inl e, st') \<Rightarrow> (Failed (transaction_id_of i transaction) e, st'))"

text \<open>The loop \<^verbatim>\<open>for i, transaction in enumerate(transactions)\<close>, appending to \<open>results\<close>.\<close>

fun batch_loop ::
    "platform \<Rightarrow> histories \<Rightarrow> nat \<Rightarrow> pydict list \<Rightarrow> batch_entry list \<times> predictor
       \<Rightarrow> batch_entry list \<times> predictor" where
  "batch_loop P user_history i [] acc = acc"
| "batch_loop P user_history i (transaction # rest) acc =
     (case batch_step P (snd acc) user_history i transaction of
        (entry, st') \<Rightarrow> batch_loop P user_history (Suc i) rest (fst acc @ [entry], st'))"

definition predict_batch ::
    "platform \<Rightarrow> predictor \<Rightarrow> pydict list \<Rightarrow> histories \<Rightarrow> batch_entry list \<times> predictor" where
  "predict_batch P st transactions user_history =
     batch_loop P user_history 0 transactions ([], st)"

section \<open>Model persistence\<close>

text \<open>
  The file system as the save and load methods see it: the object \<^verbatim>\<open>pickle.load\<close> reads at
  a path (\<open>None\<close> when the file is missing or unreadable) and whether the operating system
  lets the directory of a path be created and the file be opened for writing.
\<close>

record filesystem =
  files :: "string \<Rightarrow> artifact option"
  writable :: "string \<Rightarrow> bool"

text \<open>\<^verbatim>\<open>os.path.dirname\<close> (POSIX): the part up to the last slash, without trailing slashes
  unless it consists of slashes only.\<close>

definition dirname :: "string \<Rightarrow> string" where
  "dirname p =
     (let head = rev (dropWhile (\<lambda>c. c \<noteq> CHR ''/'') (rev p)) in
      if head \<noteq> [] \<and> \<not> list_all (\<lambda>c. c = CHR ''/'') head
      then rev (dropWhile (\<lambda>c. c = CHR ''/'') (rev head))
      else head)"

text \<open>\<^verbatim>\<open>os.makedirs(os.path.dirname(model_path), exist_ok=True)\<close> followed by
  \<^verbatim>\<open>open(model_path, 'wb')\<close>: \<^verbatim>\<open>os.makedirs('')\<close> raises \<^verbatim>\<open>FileNotFoundError\<close>.\<close>

definition can_write :: "filesystem \<Rightarrow> string \<Rightarrow> bool" where
  "can_write fs path = (dirname path \<noteq> [] \<and> writable fs path)"

subsection \<open>\<^verbatim>\<open>FraudPredictor.save_model\<close> and \<^verbatim>\<open>FraudPredictor.load_model\<close>\<close>

definition save_model :: "predictor \<Rightarrow> filesystem \<Rightarrow> string \<Rightarrow> bool \<times> filesystem" where
  "save_model st fs path =
     (case model st of
        None \<Rightarrow> (False, fs)
      | Some m \<Rightarrow>
          if \<not> artifact_truthy m then (False, fs)
          else if can_write fs path
          then (True, fs\<lparr>files := (files fs)(path := Some m)\<rparr>)
          else (False, fs))"

definition load_model :: "predictor \<Rightarrow> filesystem \<Rightarrow> string \<Rightarrow> bool \<times> predictor" where
  "load_model st fs path =
     (case files fs path of
        Some m \<Rightarrow> (True, st\<lparr>model := Some m, model_loaded := True, model_path := Some path\<rparr>)
      | None \<Rightarrow> (False, st\<lparr>model_loaded := False\<rparr>))"

subsection \<open>\<^verbatim>\<open>FraudModelTrainer._save_model\<close> and \<^verbatim>\<open>FraudModelTrainer.load_model\<close>\<close>

record loaded_model =
  bm_model_type :: string
  bm_model :: classifier
  bm_feature_names :: "string list"
  bm_trained_at :: string
  bm_model_path :: string

record trainer =
  tr_config :: pydict
  tr_models :: "(string \<times> classifier) list"
  tr_best_model :: "loaded_model option"

text \<open>What the trainer's \<^verbatim>\<open>load_model\<close> returns: the dictionary with \<^verbatim>\<open>success\<close>,
  \<^verbatim>\<open>model_type\<close>, \<^verbatim>\<open>feature_names\<close>, \<^verbatim>\<open>trained_at\<close> and \<^verbatim>\<open>model\<close>, or the one with
  \<^verbatim>\<open>success: False\<close> and the error.\<close>

datatype load_result =
    LoadOk (lr_model_type: string) (lr_feature_names: "string list")
           (lr_trained_at: string) (lr_model: classifier)
  | LoadFailed pyerr

definition trainer_save_model ::
    "platform \<Rightarrow> trainer \<Rightarrow> classifier \<Rightarrow> string \<Rightarrow> string list \<Rightarrow> filesystem
       \<Rightarrow> bool \<times> filesystem" where
  "trainer_save_model P tr mdl path feature_names fs =
     (if can_write fs path then
        (let info = \<lparr>mi_model = mdl,
                     mi_feature_names = feature_names,
                     mi_trained_at = now_isoformat P,
                     mi_model_type = clf_type_name mdl,
                     mi_config = tr_config tr\<rparr> in
         (True, fs\<lparr>files := (files fs)(path := Some (ModelInfo info))\<rparr>))
      else (False, fs))"

definition trainer_load_model ::
    "trainer \<Rightarrow> filesystem \<Rightarrow> string \<Rightarrow> load_result \<times> trainer" where
  "trainer_load_model tr fs path =
     (case files fs path of
        None \<Rightarrow> (LoadFailed ValueError, tr)
      | Some (Classifier c) \<Rightarrow> (LoadFailed TypeError, tr)
      | Some (ModelInfo info) \<Rightarrow>
          (LoadOk (mi_model_type info) (mi_feature_names info) (mi_trained_at info) (mi_model info),
           tr\<lparr>tr_models := AList.update (mi_model_type info) (mi_model info) (tr_models tr),
              tr_best_model :=
                Some \<lparr>bm_model_type = mi_model_type info,
                      bm_model = mi_model info,
                      bm_feature_names = mi_feature_names info,
                      bm_trained_at = mi_trained_at info,
                      bm_model_path = path\<rparr>\<rparr>))"

section \<open>Reference inputs\<close>

text \<open>
  A platform whose clock stands at 2023-11-15 02:00:00 (a Wednesday) and whose calendar
  is only asked about that instant; the transaction of the rule-fallback example of the
  specification, which has no timestamp and so is scored at the clock's instant.
\<close>

definition night_platform :: platform where
  "night_platform =
     \<lparr>clock_now = 1700013600,
      now_isoformat = ''2023-11-15T02:00:00'',
      fromtimestamp = (\<lambda>t. if t = 1700013600
                            then Some \<lparr>dt_hour = 2, dt_weekday = 2, dt_day = 15, dt_month = 11\<rparr>
                            else None),
      parse_isoformat = (\<lambda>s. None),
      np_log1p = (\<lambda>v. case num_of v of Some x \<Rightarrow> Inr (VNp (ln (1 + x))) | None \<Rightarrow> Inl TypeError),
      np_mean_nested = (\<lambda>vs. Inl ValueError),
      pd_std = (\<lambda>col. VNaN),
      pd_time_diff_mean = (\<lambda>col. Inr VNaN),
      md5_prefix = (\<lambda>s. 0),
      format_num = (\<lambda>spec x. ''?''),
      py_str = (\<lambda>v. ''?'')\<rparr>"

definition example_transaction :: pydict where
  "example_transaction =
     [(''amount'', VFloat 999.99), (''is_first'', VBool True), (''session_duration'', VInt 45)]"

text \<open>The result entry of a one-transaction batch.\<close>

definition single_result :: "platform \<Rightarrow> predictor \<Rightarrow> pydict \<Rightarrow> batch_entry" where
  "single_result P st transaction = hd (fst (predict_batch P st [transaction] []))"

text \<open>Predicates used to state properties: a value is a number above, or below, a bound.\<close>

definition exceeds :: "pyval \<Rightarrow> real \<Rightarrow> bool" where
  "exceeds v c = (case num_of v of Some r \<Rightarrow> r > c | None \<Rightarrow> False)"

definition is_below :: "pyval \<Rightarrow> real \<Rightarrow> bool" where
  "is_below v c = (case num_of v of Some r \<Rightarrow> r < c | None \<Rightarrow> False)"

text \<open>The feature vector of the reference transaction when the local time of scoring is
  \<open>dt\<close>, at hour 2, and \<^verbatim>\<open>numpy.log1p\<close> of the amount is \<open>amount_log\<close>.\<close>

definition example_features_at :: "datetime \<Rightarrow> pyval \<Rightarrow> pydict" where
  "example_features_at dt amount_log =
     [(''transaction_amount'', VFloat 999.99),
      (''amount_log'', amount_log),
      (''is_first_transaction'', VBool True),
      (''transaction_count_today'', VInt 0),
      (''payment_method_credit_card'', VInt 0),
      (''payment_method_digital'', VInt 0),
      (''hour_of_day'', VInt 2),
      (''day_of_week'', VInt (dt_weekday dt)),
      (''day_of_month'', VInt (dt_day dt)),
      (''is_weekend'', int_flag (dt_weekday dt \<ge> 5)),
      (''is_night_hours'', VInt 1),
      (''is_business_hours'', VInt 0),
      (''month'', VInt (dt_month dt)),
      (''is_holiday_season'', int_flag (dt_month dt = 11 \<or> dt_month dt = 12)),
      (''device_type'', VStr ''unknown''),
      (''browser'', VStr ''unknown''),
      (''os'', VStr ''unknown''),
      (''session_duration'', VInt 45),
      (''short_session'', VInt 1),
      (''high_amount_deviation'', VInt 0),
      (''high_hourly_velocity'', VInt 0),
      (''night_transaction'', VInt 1),
      (''short_session_flag'', VInt 1),
      (''high_failure_history'', VInt 0),
      (''new_user_high_amount'', VInt 1),
      (''composite_risk_score'', VInt 70)]"

definition night_datetime :: datetime where
  "night_datetime = \<lparr>dt_hour = 2, dt_weekday = 2, dt_day = 15, dt_month = 11\<rparr>"

definition example_features :: pydict where
  "example_features = example_features_at night_datetime (VNp (ln (1 + 999.99)))"

text \<open>The result entry of the reference transaction at index \<open>i\<close> of a batch.\<close>

definition example_result_at :: "platform \<Rightarrow> nat \<Rightarrow> datetime \<Rightarrow> pyval \<Rightarrow> scored" where
  "example_result_at P i dt amount_log =
     \<lparr>r_transaction_id = VStr (''txn_'' @ str_of_nat i),
      r_user_id = VNone,
      r_amount = VFloat 999.99,
      r_timestamp = VStr (now_isoformat P),
      r_is_fraud = False,
      r_probability = 0.65,
      r_confidence = 65,
      r_score = 92.95,
      r_level = CRITICAL,
      r_factors = VList [VStr ''NIGHT_TRANSACTION'', VStr ''SHORT_SESSION'',
                         VStr ''NEW_USER_HIGH_AMOUNT''],
      r_explanation =
        [(''method'', VStr ''rule_based''),
         (''risk_factors'', VList [VStr ''NIGHT_TRANSACTION'', VStr ''SHORT_SESSION'',
                                   VStr ''NEW_USER_HIGH_AMOUNT'']),
         (''risk_score'', VInt 65),
         (''rules_applied'', VInt 3),
         (''confidence'', VFloat 65)],
      r_recommended_action =
        \<lparr>action = ''BLOCK'', reason = ''High fraud probability'',
         steps = [''Block transaction'', ''Flag account'', ''Notify security team'']\<rparr>,
      r_features = sanitize_features (example_features_at dt amount_log),
      r_anomaly_detection = None\<rparr>"

definition example_result :: scored where
  "example_result = example_result_at night_platform 0 night_datetime (VNp (ln (1 + 999.99)))"

text \<open>A transaction whose amount is a string (\<^verbatim>\<open>numpy.log1p\<close> raises on it), classifiers
  that always answer with one probability or always raise, and a predictor holding a
  loaded artifact.\<close>

definition malformed_transaction :: pydict where
  "malformed_transaction = [(''id'', VStr ''t2''), (''amount'', VStr ''abc'')]"

definition constant_classifier :: "real \<Rightarrow> classifier" where
  "constant_classifier p =
     \<lparr>clf_type_name = ''RandomForestClassifier'', clf_truthy = True,
      clf_predict_proba = Some (\<lambda>row. Some p),
      clf_predict = (\<lambda>row. Some (VInt (if p \<ge> 0.5 then 1 else 0)))\<rparr>"

definition failing_classifier :: classifier where
  "failing_classifier =
     \<lparr>clf_type_name = ''RandomForestClassifier'', clf_truthy = True,
      clf_predict_proba = Some (\<lambda>row. None),
      clf_predict = (\<lambda>row. None)\<rparr>"

definition predictor_with :: "artifact \<Rightarrow> predictor" where
  "predictor_with m = fresh_predictor\<lparr>model := Some m, model_loaded := True\<rparr>"

text \<open>The contract of a classifier's \<^verbatim>\<open>predict_proba\<close>: what it returns is a probability.\<close>

definition gives_probabilities :: "predictor \<Rightarrow> bool" where
  "gives_probabilities st =
     (case model st of
        Some (Classifier c) \<Rightarrow>
          (case clf_predict_proba c of
             Some proba \<Rightarrow> (\<forall>row p. proba row = Some p \<longrightarrow> 0 \<le> p \<and> p \<le> 1)
           | None \<Rightarrow> True)
      | _ \<Rightarrow> True)"

text \<open>A feature dictionary with a sensitive key, a sensitive key holding a list, a NumPy
  scalar, a dict and a plain value.\<close>

definition sample_features :: pydict where
  "sample_features =
     [(''session_token'', VStr ''abc''),
      (''api_keys'', VList [VStr ''k1'']),
      (''amount_log'', VNp 2),
      (''device_info'', VDict []),
      (''hour_of_day'', VInt 2)]"

text \<open>The probability is the number that \<^verbatim>\<open>predict_proba\<close> of the loaded classifier returned
  for the feature row.\<close>

definition from_predict_proba :: "predictor \<Rightarrow> pydict \<Rightarrow> real \<Rightarrow> bool" where
  "from_predict_proba st features p =
     (uses_model st \<and>
      (case model st of
         Some (Classifier c) \<Rightarrow>
           (case clf_predict_proba c of
              Some proba \<Rightarrow> proba (ensure_feature_columns features) = Some p
            | None \<Rightarrow> False)
       | _ \<Rightarrow> False))"

text \<open>What \<^verbatim>\<open>explain_prediction\<close> returns for the reference features and a nonzero
  probability \<open>p\<close> on the reference platform, whose number formatting is a placeholder.\<close>

definition example_model_explanation_at :: "real \<Rightarrow> pydict" where
  "example_model_explanation_at p =
     [(''factors'',
         VList [VStr ''Transaction occurred during unusual hours (?:00)'',
                VStr ''Very short session duration (?s)'',
                VStr ''New user with high amount ($?)'']),
      (''contributions'', VList [VFloat (150 / 7), VFloat (200 / 7), VFloat 50]),
      (''risk_factors'',
         VList [VStr ''NIGHT_TRANSACTION'', VStr ''SHORT_SESSION'', VStr ''NEW_USER_HIGH_AMOUNT'']),
      (''confidence'', VFloat (p * 100)),
      (''summary'', VStr (risk_summary p))]"

text \<open>Trainers and a file system for the persistence examples: the default training
  configuration of \<^verbatim>\<open>FraudModelTrainer\<close>, a configuration with another test split, and
  an empty, writable file system.\<close>

definition trainer_config :: "real \<Rightarrow> pydict" where
  "trainer_config test_size =
     [(''test_size'', VFloat test_size),
      (''random_state'', VInt 42),
      (''cv_folds'', VInt 5),
      (''models'',
         VDict [(''random_forest'',
                   VDict [(''n_estimators'', VInt 100), (''max_depth'', VInt 10),
                          (''min_samples_split'', VInt 2)]),
                (''gradient_boosting'',
                   VDict [(''n_estimators'', VInt 100), (''learning_rate'', VFloat 0.1),
                          (''max_depth'', VInt 3)]),
                (''logistic_regression'',
                   VDict [(''C'', VFloat 1.0), (''max_iter'', VInt 1000)])]),
      (''feature_selection'',
         VDict [(''method'', VStr ''importance''), (''threshold'', VFloat 0.01)]),
      (''training'',
         VDict [(''save_model'', VBool True),
                (''model_path'', VStr ''models/fraud_model.pkl''),
                (''evaluation_report'', VBool True),
                (''cross_validation'', VBool True)])]"

definition new_trainer :: "pydict \<Rightarrow> trainer" where
  "new_trainer cfg = \<lparr>tr_config = cfg, tr_models = [], tr_best_model = None\<rparr>"

definition empty_filesystem :: filesystem where
  "empty_filesystem = \<lparr>files = (\<lambda>path. None), writable = (\<lambda>path. True)\<rparr>"

section \<open>Properties\<close>

subsection \<open>Dictionaries and comparisons\<close>

lemma map_of_dict_update: "map_of (dict_update d e) = map_of (rev e @ d)"
proof (induction e arbitrary: d)
  case Nil
  show ?case by (simp add: dict_update_def)
next
  case (Cons kv e)
  have "dict_update d (kv # e) = dict_update (dict_set d (fst kv) (snd kv)) e"
    by (simp add: dict_update_def)
  then show ?case
    using Cons.IH [of "dict_set d (fst kv) (snd kv)"]
    by (cases kv) (simp add: dict_set_def update_conv' map_add_def fun_eq_iff split: option.splits)
qed

lemma dict_get_dict_update:
  "dict_get (dict_update d e) k dflt = (case map_of (rev e) k of Some v \<Rightarrow> v | None \<Rightarrow> dict_get d k dflt)"
  by (simp add: dict_get_def map_of_dict_update map_add_def split: option.splits)

lemma py_gt_exceeds: "py_gt v c = Inr b \<Longrightarrow> b = exceeds v c"
  by (auto simp: py_gt_def exceeds_def split: option.splits if_splits)

lemma py_lt_is_below: "py_lt v c = Inr b \<Longrightarrow> b = is_below v c"
  by (auto simp: py_lt_def is_below_def split: option.splits if_splits)

lemma ebind_Inr: "ebind m f = Inr y \<longleftrightarrow> (\<exists>x. m = Inr x \<and> f x = Inr y)"
  by (cases m) (simp_all add: ebind_def)

lemma derived_triggers_Inr:
  assumes "derived_triggers f = Inr t"
  shows "t_deviation t = exceeds (dict_get f ''amount_deviation_ratio'' (VInt 1)) 3"
    and "t_velocity t = exceeds (dict_get f ''hourly_velocity'' (VInt 0)) 5"
    and "t_night t = py_eq1 (dict_get f ''is_night_hours'' (VInt 0))"
    and "t_short t = py_eq1 (dict_get f ''short_session'' (VInt 0))"
    and "t_failure t = exceeds (dict_get f ''previous_failure_rate'' (VInt 0)) 0.3"
    and "t_new_user t = (truthy (dict_get f ''is_first_transaction'' (VBool False))
                          \<and> exceeds (dict_get f ''transaction_amount'' (VInt 0)) 100)"
  using assms
  by (auto simp: derived_triggers_def ebind_Inr split: if_splits dest: py_gt_exceeds)

lemma calculate_derived_features_Inr:
  assumes "calculate_derived_features f = Inr d"
  obtains t where "derived_triggers f = Inr t"
    and "d = [(''high_amount_deviation'', int_flag (t_deviation t)),
            (''high_hourly_velocity'', int_flag (t_velocity t)),
            (''night_transaction'', int_flag (t_night t)),
            (''short_session_flag'', int_flag (t_short t)),
            (''high_failure_history'', int_flag (t_failure t)),
            (''new_user_high_amount'', int_flag (t_new_user t)),
            (''composite_risk_score'', VInt (composite_of t))]"
  using assms by (auto simp: calculate_derived_features_def ebind_Inr)

subsection \<open>What each feature group contributes\<close>

lemma transaction_features_Inr:
  assumes "extract_transaction_features P tx = Inr f"
  shows "map_of f ''transaction_amount'' = Some (dict_get tx ''amount'' (VInt 0))"
    and "map_of f ''is_first_transaction'' = Some (dict_get tx ''is_first'' (VBool False))"
    and "map_of f ''amount_deviation_ratio'' = None"
  using assms by (auto simp: extract_transaction_features_def ebind_Inr Let_def)

lemma behavior_features_Inr:
  assumes "extract_user_behavior_features P tx h = Inr b"
  shows "map_of (rev b) ''transaction_amount'' = None"
    and "map_of (rev b) ''is_first_transaction'' = None"
  using assms
  by (auto simp: extract_user_behavior_features_def ebind_Inr Let_def split: if_splits)

lemma temporal_features_Inr:
  assumes "extract_temporal_features P tx = Inr t"
  obtains dt where "local_datetime P (dict_get tx ''timestamp'' (VFloat (clock_now P))) = Inr dt"
    and "map_of (rev t) ''is_night_hours'' = Some (int_flag (0 \<le> dt_hour dt \<and> dt_hour dt < 6))"
    and "map_of (rev t) ''transaction_amount'' = None"
    and "map_of (rev t) ''is_first_transaction'' = None"
    and "map_of (rev t) ''amount_deviation_ratio'' = None"
  using assms by (auto simp: extract_temporal_features_def ebind_Inr Let_def)

lemma technical_features_Inr:
  assumes "extract_technical_features P tx = Inr d"
  shows "map_of (rev d) ''short_session'' = Some (int_flag (is_below (dict_get tx ''session_duration'' (VInt 0)) 60))"
    and "map_of (rev d) ''is_night_hours'' = None"
    and "map_of (rev d) ''transaction_amount'' = None"
    and "map_of (rev d) ''is_first_transaction'' = None"
    and "map_of (rev d) ''amount_deviation_ratio'' = None"
  using assms
  by (auto simp: extract_technical_features_def ebind_Inr Let_def
      split: if_splits pyval.splits dest!: py_lt_is_below)

lemma py_eq1_int_flag: "py_eq1 (int_flag b) = b"
  by (simp add: py_eq1_def int_flag_def)

lemma extract_features_Inr:
  assumes "extract_features P tx h = Inr features"
  obtains f1 b t d derived where
    "extract_transaction_features P tx = Inr f1"
    "h \<noteq> [] \<Longrightarrow> extract_user_behavior_features P tx h = Inr b"
    "h = [] \<Longrightarrow> b = []"
    "extract_temporal_features P tx = Inr t"
    "extract_technical_features P tx = Inr d"
    "calculate_derived_features (dict_update (dict_update (dict_update f1 b) t) d) = Inr derived"
    "features = dict_update (dict_update (dict_update (dict_update f1 b) t) d) derived"
proof -
  from assms obtain f1 f2 t d derived where
    f1: "extract_transaction_features P tx = Inr f1"
    and f2: "(if h \<noteq> [] then ebind (extract_user_behavior_features P tx h) (\<lambda>b. Inr (dict_update f1 b)) else Inr f1) = Inr f2"
    and t: "extract_temporal_features P tx = Inr t"
    and d: "extract_technical_features P tx = Inr d"
    and der: "calculate_derived_features (dict_update (dict_update f2 t) d) = Inr derived"
    and feat: "features = dict_update (dict_update (dict_update f2 t) d) derived"
    by (auto simp: extract_features_def ebind_Inr Let_def)
  from f2 obtain b where b: "h \<noteq> [] \<Longrightarrow> extract_user_behavior_features P tx h = Inr b"
    "f2 = dict_update f1 b" "h = [] \<Longrightarrow> b = []"
  proof (cases "h = []")
    case True
    with f2 have "f2 = dict_update f1 []" by (simp add: dict_update_def)
    with True that [of "[]"] show ?thesis by simp
  next
    case False
    with f2 obtain b where "extract_user_behavior_features P tx h = Inr b" "f2 = dict_update f1 b"
      by (auto simp: ebind_Inr)
    with False that [of b] show ?thesis by blast
  qed
  with f1 t d der feat that show ?thesis by blast
qed

lemma lookup_dict_update:
  "map_of (dict_update d e) k = (case map_of (rev e) k of Some v \<Rightarrow> Some v | None \<Rightarrow> map_of d k)"
  by (simp add: map_of_dict_update map_add_def)

lemma lookup_skip: "map_of (rev e) k = None \<Longrightarrow> map_of (dict_update d e) k = map_of d k"
  by (simp add: lookup_dict_update)

lemma lookup_hit: "map_of (rev e) k = Some v \<Longrightarrow> map_of (dict_update d e) k = Some v"
  by (simp add: lookup_dict_update)

lemma dict_get_Some: "map_of d k = Some v \<Longrightarrow> dict_get d k dflt = v"
  by (simp add: dict_get_def)

lemma dict_get_same: "map_of d k = map_of d' k \<Longrightarrow> dict_get d k dflt = dict_get d' k dflt"
  by (simp add: dict_get_def)

lemma derived_keys:
  assumes "calculate_derived_features f = Inr derived"
  shows "map_of (rev derived) ''amount_deviation_ratio'' = None"
    and "map_of (rev derived) ''hourly_velocity'' = None"
    and "map_of (rev derived) ''previous_failure_rate'' = None"
  using assms by (auto simp: calculate_derived_features_def ebind_Inr)

lemma derived_composite:
  assumes "calculate_derived_features f = Inr derived"
  obtains trig where "derived_triggers f = Inr trig"
    and "map_of (rev derived) ''composite_risk_score'' = Some (VInt (composite_of trig))"
  using assms by (auto simp: calculate_derived_features_def ebind_Inr)

subsection \<open>The features of the reference transaction\<close>

lemma example_transaction_group:
  assumes "np_log1p P (VFloat 999.99) = Inr lg"
  shows "extract_transaction_features P example_transaction = Inr (take 6 (example_features_at dt lg))"
  using assms
  by (simp add: extract_transaction_features_def example_transaction_def
        ebind_def dict_get_def int_flag_def example_features_at_def)

lemma example_temporal_group:
  assumes "fromtimestamp P (clock_now P) = Some dt" and "dt_hour dt = 2"
  shows "extract_temporal_features P example_transaction
           = Inr (take 8 (drop 6 (example_features_at dt lg)))"
  using assms
  by (simp add: extract_temporal_features_def local_datetime_def
        example_transaction_def ebind_def dict_get_def int_flag_def example_features_at_def)

lemma example_technical_group:
  "extract_technical_features P example_transaction
     = Inr (take 5 (drop 14 (example_features_at dt lg)))"
  by (simp add: extract_technical_features_def example_transaction_def
        ebind_def dict_get_def int_flag_def example_features_at_def py_lt_def)

lemma example_update_temporal:
  "dict_update (take 6 (example_features_at dt lg)) (take 8 (drop 6 (example_features_at dt lg)))
     = take 14 (example_features_at dt lg)"
  by (simp add: example_features_at_def dict_update_def dict_set_def)

lemma example_update_technical:
  "dict_update (take 14 (example_features_at dt lg)) (take 5 (drop 14 (example_features_at dt lg)))
     = take 19 (example_features_at dt lg)"
  by (simp add: example_features_at_def dict_update_def dict_set_def)

lemma example_derived_group:
  "calculate_derived_features (take 19 (example_features_at dt lg))
     = Inr (drop 19 (example_features_at dt lg))"
  by (simp add: example_features_at_def calculate_derived_features_def derived_triggers_def
        ebind_def dict_get_def py_gt_def py_eq1_def int_flag_def composite_of_def weight_def)

lemma example_update_derived:
  "dict_update (take 19 (example_features_at dt lg)) (drop 19 (example_features_at dt lg))
     = example_features_at dt lg"
  by (simp add: example_features_at_def dict_update_def dict_set_def)

lemma example_features_at_extracted:
  assumes "np_log1p P (VFloat 999.99) = Inr lg"
    and "fromtimestamp P (clock_now P) = Some dt" and "dt_hour dt = 2"
  shows "extract_features P example_transaction [] = Inr (example_features_at dt lg)"
  by (simp add: extract_features_def example_transaction_group [OF assms(1), where dt = dt]
        example_temporal_group [OF assms(2,3), where lg = lg]
        example_technical_group [where dt = dt and lg = lg] example_derived_group
        example_update_temporal example_update_technical example_update_derived ebind_def)

lemma night_platform_facts:
  "np_log1p night_platform (VFloat 999.99) = Inr (VNp (ln (1 + 999.99)))"
  "fromtimestamp night_platform (clock_now night_platform) = Some night_datetime"
  "dt_hour night_datetime = 2"
  by (simp_all add: night_platform_def night_datetime_def)

lemma example_features_extracted:
  "extract_features night_platform example_transaction [] = Inr example_features"
  unfolding example_features_def
  by (rule example_features_at_extracted [OF night_platform_facts])

subsection \<open>The composite risk score\<close>

lemma triggers_of_inputs:
  assumes f1: "extract_transaction_features P transaction = Inr f1"
    and b: "history \<noteq> [] \<Longrightarrow> extract_user_behavior_features P transaction history = Inr b"
    and b0: "history = [] \<Longrightarrow> b = []"
    and t: "extract_temporal_features P transaction = Inr t"
    and d: "extract_technical_features P transaction = Inr d"
    and f4: "f4 = dict_update (dict_update (dict_update f1 b) t) d"
  obtains dt where
    "local_datetime P (dict_get transaction ''timestamp'' (VFloat (clock_now P))) = Inr dt"
    "dict_get f4 ''is_night_hours'' (VInt 0) = int_flag (0 \<le> dt_hour dt \<and> dt_hour dt < 6)"
    "dict_get f4 ''short_session'' (VInt 0)
       = int_flag (is_below (dict_get transaction ''session_duration'' (VInt 0)) 60)"
    "dict_get f4 ''is_first_transaction'' (VBool False) = dict_get transaction ''is_first'' (VBool False)"
    "dict_get f4 ''transaction_amount'' (VInt 0) = dict_get transaction ''amount'' (VInt 0)"
proof -
  from t obtain dt where dt: "local_datetime P (dict_get transaction ''timestamp'' (VFloat (clock_now P))) = Inr dt"
    and night: "map_of (rev t) ''is_night_hours'' = Some (int_flag (0 \<le> dt_hour dt \<and> dt_hour dt < 6))"
    and t_amount: "map_of (rev t) ''transaction_amount'' = None"
    and t_first: "map_of (rev t) ''is_first_transaction'' = None"
    by (rule temporal_features_Inr) blast
  note dd = technical_features_Inr [OF d]
  have b_none: "map_of (rev b) ''transaction_amount'' = None" "map_of (rev b) ''is_first_transaction'' = None"
  proof -
    show "map_of (rev b) ''transaction_amount'' = None"
      using b0 behavior_features_Inr(1) [OF b] by (cases "history = []") simp_all
    show "map_of (rev b) ''is_first_transaction'' = None"
      using b0 behavior_features_Inr(2) [OF b] by (cases "history = []") simp_all
  qed
  have "map_of f4 ''is_night_hours'' = Some (int_flag (0 \<le> dt_hour dt \<and> dt_hour dt < 6))"
    unfolding f4 by (simp only: lookup_skip [OF dd(2)] lookup_hit [OF night])
  then have g1: "dict_get f4 ''is_night_hours'' (VInt 0) = int_flag (0 \<le> dt_hour dt \<and> dt_hour dt < 6)"
    by (rule dict_get_Some)
  have "map_of f4 ''short_session''
       = Some (int_flag (is_below (dict_get transaction ''session_duration'' (VInt 0)) 60))"
    unfolding f4 by (rule lookup_hit [OF dd(1)])
  then have g2: "dict_get f4 ''short_session'' (VInt 0)
       = int_flag (is_below (dict_get transaction ''session_duration'' (VInt 0)) 60)"
    by (rule dict_get_Some)
  have "map_of f4 ''is_first_transaction'' = Some (dict_get transaction ''is_first'' (VBool False))"
    unfolding f4
    by (simp only: lookup_skip [OF dd(4)] lookup_skip [OF t_first] lookup_skip [OF b_none(2)]
          transaction_features_Inr(2) [OF f1])
  then have g3: "dict_get f4 ''is_first_transaction'' (VBool False) = dict_get transaction ''is_first'' (VBool False)"
    by (rule dict_get_Some)
  have "map_of f4 ''transaction_amount'' = Some (dict_get transaction ''amount'' (VInt 0))"
    unfolding f4
    by (simp only: lookup_skip [OF dd(3)] lookup_skip [OF t_amount] lookup_skip [OF b_none(1)]
          transaction_features_Inr(1) [OF f1])
  then have g4: "dict_get f4 ''transaction_amount'' (VInt 0) = dict_get transaction ''amount'' (VInt 0)"
    by (rule dict_get_Some)
  from dt g1 g2 g3 g4 show ?thesis by (rule that)
qed

text \<open>
  Claim C3.  Whenever feature extraction succeeds, the \<^verbatim>\<open>composite_risk_score\<close> feature is
  the sum, capped at 100, of: 30 if \<^verbatim>\<open>amount_deviation_ratio\<close> is above 3, 25 if
  \<^verbatim>\<open>hourly_velocity\<close> is above 5, 15 if the local hour of the transaction is in \<open>[0, 6)\<close>,
  20 if \<^verbatim>\<open>session_duration\<close> is below 60, 25 if \<^verbatim>\<open>previous_failure_rate\<close> is above 0.3, and
  35 if the transaction is flagged as a first one and its amount is above 100.  A behaviour
  feature the vector lacks counts with its default (ratio 1, velocity 0, failure rate 0).
\<close>

theorem composite_risk_score_weights:
  assumes "extract_features P transaction history = Inr features"
  shows "\<exists>dt. local_datetime P (dict_get transaction ''timestamp'' (VFloat (clock_now P))) = Inr dt \<and>
     map_of features ''composite_risk_score'' = Some (VInt (min
       ((if exceeds (dict_get features ''amount_deviation_ratio'' (VInt 1)) 3 then 30 else 0)
      + (if exceeds (dict_get features ''hourly_velocity'' (VInt 0)) 5 then 25 else 0)
      + (if 0 \<le> dt_hour dt \<and> dt_hour dt < 6 then 15 else 0)
      + (if is_below (dict_get transaction ''session_duration'' (VInt 0)) 60 then 20 else 0)
      + (if exceeds (dict_get features ''previous_failure_rate'' (VInt 0)) 0.3 then 25 else 0)
      + (if truthy (dict_get transaction ''is_first'' (VBool False))
            \<and> exceeds (dict_get transaction ''amount'' (VInt 0)) 100 then 35 else 0)) 100))"
proof -
  from assms obtain f1 b t d derived where
    f1: "extract_transaction_features P transaction = Inr f1"
    and b: "history \<noteq> [] \<Longrightarrow> extract_user_behavior_features P transaction history = Inr b"
    and b0: "history = [] \<Longrightarrow> b = []"
    and t: "extract_temporal_features P transaction = Inr t"
    and d: "extract_technical_features P transaction = Inr d"
    and der: "calculate_derived_features (dict_update (dict_update (dict_update f1 b) t) d) = Inr derived"
    and feat: "features = dict_update (dict_update (dict_update (dict_update f1 b) t) d) derived"
    by (rule extract_features_Inr) blast
  define f4 where "f4 = dict_update (dict_update (dict_update f1 b) t) d"
  from f1 b b0 t d f4_def obtain dt where
    dt: "local_datetime P (dict_get transaction ''timestamp'' (VFloat (clock_now P))) = Inr dt"
    and g: "dict_get f4 ''is_night_hours'' (VInt 0) = int_flag (0 \<le> dt_hour dt \<and> dt_hour dt < 6)"
    "dict_get f4 ''short_session'' (VInt 0)
       = int_flag (is_below (dict_get transaction ''session_duration'' (VInt 0)) 60)"
    "dict_get f4 ''is_first_transaction'' (VBool False) = dict_get transaction ''is_first'' (VBool False)"
    "dict_get f4 ''transaction_amount'' (VInt 0) = dict_get transaction ''amount'' (VInt 0)"
    by (rule triggers_of_inputs) blast
  have der4: "calculate_derived_features f4 = Inr derived" and feat4: "features = dict_update f4 derived"
    using der feat by (simp_all only: f4_def)
  from der4 obtain trig where trig: "derived_triggers f4 = Inr trig"
    and c: "map_of (rev derived) ''composite_risk_score'' = Some (VInt (composite_of trig))"
    by (rule derived_composite) blast
  have comp: "map_of features ''composite_risk_score'' = Some (VInt (composite_of trig))"
    unfolding feat4 by (rule lookup_hit [OF c])
  note dk = derived_keys [OF der4]
  have same1: "dict_get features ''amount_deviation_ratio'' (VInt 1) = dict_get f4 ''amount_deviation_ratio'' (VInt 1)"
    unfolding feat4 by (rule dict_get_same [OF lookup_skip [OF dk(1)]])
  have same2: "dict_get features ''hourly_velocity'' (VInt 0) = dict_get f4 ''hourly_velocity'' (VInt 0)"
    unfolding feat4 by (rule dict_get_same [OF lookup_skip [OF dk(2)]])
  have same3: "dict_get features ''previous_failure_rate'' (VInt 0) = dict_get f4 ''previous_failure_rate'' (VInt 0)"
    unfolding feat4 by (rule dict_get_same [OF lookup_skip [OF dk(3)]])
  note tr = derived_triggers_Inr [OF trig]
  have eq: "composite_of trig = min
       ((if exceeds (dict_get features ''amount_deviation_ratio'' (VInt 1)) 3 then 30 else 0)
      + (if exceeds (dict_get features ''hourly_velocity'' (VInt 0)) 5 then 25 else 0)
      + (if 0 \<le> dt_hour dt \<and> dt_hour dt < 6 then 15 else 0)
      + (if is_below (dict_get transaction ''session_duration'' (VInt 0)) 60 then 20 else 0)
      + (if exceeds (dict_get features ''previous_failure_rate'' (VInt 0)) 0.3 then 25 else 0)
      + (if truthy (dict_get transaction ''is_first'' (VBool False))
            \<and> exceeds (dict_get transaction ''amount'' (VInt 0)) 100 then 35 else 0)) 100"
    unfolding composite_of_def weight_def tr g py_eq1_int_flag same1 same2 same3
    by (rule refl)
  from comp have "map_of features ''composite_risk_score'' = Some (VInt (min
       ((if exceeds (dict_get features ''amount_deviation_ratio'' (VInt 1)) 3 then 30 else 0)
      + (if exceeds (dict_get features ''hourly_velocity'' (VInt 0)) 5 then 25 else 0)
      + (if 0 \<le> dt_hour dt \<and> dt_hour dt < 6 then 15 else 0)
      + (if is_below (dict_get transaction ''session_duration'' (VInt 0)) 60 then 20 else 0)
      + (if exceeds (dict_get features ''previous_failure_rate'' (VInt 0)) 0.3 then 25 else 0)
      + (if truthy (dict_get transaction ''is_first'' (VBool False))
            \<and> exceeds (dict_get transaction ''amount'' (VInt 0)) 100 then 35 else 0)) 100))"
    by (simp only: eq)
  with dt show ?thesis by (intro exI [where x = dt] conjI)
qed

theorem composite_risk_score_weights_witness:
  "extract_features night_platform example_transaction [] = Inr example_features \<and>
   (\<exists>dt. local_datetime night_platform
            (dict_get example_transaction ''timestamp'' (VFloat (clock_now night_platform))) = Inr dt \<and>
     map_of example_features ''composite_risk_score'' = Some (VInt (min
       ((if exceeds (dict_get example_features ''amount_deviation_ratio'' (VInt 1)) 3 then 30 else 0)
      + (if exceeds (dict_get example_features ''hourly_velocity'' (VInt 0)) 5 then 25 else 0)
      + (if 0 \<le> dt_hour dt \<and> dt_hour dt < 6 then 15 else 0)
      + (if is_below (dict_get example_transaction ''session_duration'' (VInt 0)) 60 then 20 else 0)
      + (if exceeds (dict_get example_features ''previous_failure_rate'' (VInt 0)) 0.3 then 25 else 0)
      + (if truthy (dict_get example_transaction ''is_first'' (VBool False))
            \<and> exceeds (dict_get example_transaction ''amount'' (VInt 0)) 100 then 35 else 0)) 100)))"
  using example_features_extracted composite_risk_score_weights [OF example_features_extracted]
  by (rule conjI)

subsection \<open>Scoring the reference transaction\<close>

lemma example_rule_hits:
  "rule_hits (example_features_at dt lg)
     = Inr [(''NIGHT_TRANSACTION'', 15), (''SHORT_SESSION'', 20), (''NEW_USER_HIGH_AMOUNT'', 30)]"
  by (simp add: rule_hits_def example_features_at_def ebind_def dict_get_def py_gt_def py_eq1_def)

lemma example_rule_based_prediction:
  assumes "config st = default_config"
  shows "rule_based_prediction st (example_features_at dt lg)
     = Inr (False, 0.65, r_explanation (example_result_at P i dt lg))"
  by (simp add: rule_based_prediction_def example_rule_hits ebind_def assms meets_threshold_def
        default_config_def example_result_at_def)

lemma example_predict:
  assumes "\<not> model_loaded st" and "config st = default_config"
  shows "predict P st (example_features_at dt lg)
     = (Inr (False, 0.65, r_explanation (example_result_at P i dt lg)), st)"
  using assms(1)
  by (simp add: predict_def predict_try_def uses_model_def
        example_rule_based_prediction [OF assms(2), where P = P and i = i])

lemma example_risk_score:
  "calculate_risk_score (example_features_at dt lg) p = Inr (min (p * 100 * 1.1 * 1.3) 100)"
  by (simp add: calculate_risk_score_def example_features_at_def ebind_def dict_get_def py_gt_def py_eq1_def)

lemma example_scored:
  assumes "\<not> model_loaded st" and "config st = default_config" and "feature_extractor st"
    and "np_log1p P (VFloat 999.99) = Inr lg"
    and "fromtimestamp P (clock_now P) = Some dt" and "dt_hour dt = 2"
  shows "score_transaction P st user_history i example_transaction
           = (Inr (example_result_at P i dt lg), st)"
proof -
  have h: "history_for user_history VNone = Inr []"
    by (simp add: history_for_def)
  have tx: "dict_get example_transaction ''user_id'' VNone = VNone"
    "dict_get example_transaction ''amount'' VNone = VFloat 999.99"
    "dict_get example_transaction ''timestamp'' (VStr (now_isoformat P)) = VStr (now_isoformat P)"
    "transaction_id_of i example_transaction = VStr (''txn_'' @ str_of_nat i)"
    by (simp_all add: example_transaction_def dict_get_def transaction_id_of_def)
  show ?thesis
    unfolding score_transaction_def
    by (simp add: tx h ebind_def assms(1,3) example_features_at_extracted [OF assms(4,5,6)]
          example_predict [OF assms(1,2), where P = P and i = i] example_risk_score
          determine_risk_level_def get_recommended_action_def example_result_at_def)
       (simp add: dict_get_def assms(1) split: option.splits)
qed

lemma fresh_predictor_facts:
  "\<not> model_loaded fresh_predictor" "config fresh_predictor = default_config"
  "feature_extractor fresh_predictor"
  by (simp_all add: fresh_predictor_def)

lemma example_scored_night:
  "score_transaction night_platform fresh_predictor user_history i example_transaction
     = (Inr (example_result_at night_platform i night_datetime (VNp (ln (1 + 999.99)))),
        fresh_predictor)"
  by (rule example_scored [OF fresh_predictor_facts night_platform_facts])

lemma malformed_fails:
  "score_transaction night_platform fresh_predictor [] i malformed_transaction
     = (Inl TypeError, fresh_predictor)"
  by (simp add: score_transaction_def history_for_def malformed_transaction_def dict_get_def
        fresh_predictor_def extract_features_def extract_transaction_features_def
        night_platform_def ebind_def)

subsection \<open>The batch loop\<close>

lemma predict_state: "snd (predict P st features) = st"
  by (simp add: predict_def split: sum.splits)

lemma predict_pair: "predict P st features = (r, st') \<Longrightarrow> st' = st"
  using predict_state [of P st features] by simp

lemma score_transaction_state: "snd (score_transaction P st user_history i transaction) = st"
  by (auto simp: score_transaction_def Let_def split: sum.splits prod.splits dest: predict_pair)

lemma batch_step_state: "snd (batch_step P st user_history i transaction) = st"
  using score_transaction_state [of P st user_history i transaction]
  by (cases "score_transaction P st user_history i transaction")
     (simp add: batch_step_def split: sum.splits)

lemma batch_step_entry:
  "fst (batch_step P st user_history i transaction)
     = (case fst (score_transaction P st user_history i transaction) of
          Inr result \<Rightarrow> Scored result
        | Inl e \<Rightarrow> Failed (transaction_id_of i transaction) e)"
  by (cases "score_transaction P st user_history i transaction")
     (simp add: batch_step_def split: sum.splits)

lemma batch_loop_eq:
  "batch_loop P user_history i transactions (acc, st)
     = (acc @ map (\<lambda>(j, t). fst (batch_step P st user_history j t))
                  (zip [i ..< i + length transactions] transactions), st)"
proof (induction transactions arbitrary: i acc)
  case Nil
  show ?case by simp
next
  case (Cons t ts)
  obtain entry st' where step: "batch_step P st user_history i t = (entry, st')"
    by (cases "batch_step P st user_history i t")
  with batch_step_state [of P st user_history i t] have st': "st' = st" by simp
  have up: "[i ..< Suc (i + length ts)] = i # [Suc i ..< Suc (i + length ts)]"
    by (rule upt_conv_Cons) simp
  show ?case
    using step st' Cons.IH [of "Suc i" "acc @ [entry]"]
    by (simp add: up del: upt_Suc)
qed

lemma predict_batch_eq:
  "predict_batch P st transactions user_history
     = (map (\<lambda>(j, t). fst (batch_step P st user_history j t))
            (zip [0 ..< length transactions] transactions), st)"
  by (simp add: predict_batch_def batch_loop_eq)

lemma predict_batch_nth:
  assumes "i < length transactions"
  shows "fst (predict_batch P st transactions user_history) ! i
           = fst (batch_step P st user_history i (transactions ! i))"
  using assms by (simp add: predict_batch_eq)

text \<open>
  Claim C6.  \<^verbatim>\<open>predict_batch\<close> returns one entry per transaction, in input order.  The entry
  at position \<open>i\<close> is determined by the transaction at position \<open>i\<close> alone: the scored
  result when its processing succeeds, and otherwise the error entry with its
  \<^verbatim>\<open>transaction_id\<close> and the error.  So a failing transaction changes no other entry and does
  not stop the loop.
\<close>

theorem predict_batch_one_entry_per_transaction:
  "length (fst (predict_batch P st transactions user_history)) = length transactions \<and>
   (\<forall>i < length transactions.
      fst (predict_batch P st transactions user_history) ! i
        = (case fst (score_transaction P st user_history i (transactions ! i)) of
             Inr result \<Rightarrow> Scored result
           | Inl e \<Rightarrow> Failed (transaction_id_of i (transactions ! i)) e))"
proof (intro conjI allI impI)
  show "length (fst (predict_batch P st transactions user_history)) = length transactions"
    by (simp add: predict_batch_eq)
next
  fix i assume "i < length transactions"
  then show "fst (predict_batch P st transactions user_history) ! i
        = (case fst (score_transaction P st user_history i (transactions ! i)) of
             Inr result \<Rightarrow> Scored result
           | Inl e \<Rightarrow> Failed (transaction_id_of i (transactions ! i)) e)"
    by (simp only: predict_batch_nth batch_step_entry)
qed

text \<open>
  Claim C9.  A batch prediction leaves the predictor as it was, so scoring the same
  transactions with the same histories again, on the same platform (same clock reading),
  gives the same list of results.
\<close>

theorem scoring_twice_gives_the_same_result:
  "snd (predict_batch P st transactions user_history) = st \<and>
   predict_batch P (snd (predict_batch P st transactions user_history)) transactions user_history
     = predict_batch P st transactions user_history"
proof -
  have "snd (predict_batch P st transactions user_history) = st"
    by (simp add: predict_batch_eq)
  then show ?thesis by simp
qed

text \<open>
  Claim C7.  When the loaded model is used and invoking it raises, \<^verbatim>\<open>predict\<close> returns what
  \<^verbatim>\<open>_rule_based_prediction\<close> returns for the same features, and the predictor (model reference,
  \<^verbatim>\<open>model_loaded\<close> flag, configuration) is unchanged.
\<close>

theorem predict_falls_back_to_rules:
  assumes "uses_model st"
    and "model_probability (the (model st)) (ensure_feature_columns features) = Inl e"
  shows "predict P st features = (rule_based_prediction st features, st)"
  using assms by (simp add: predict_def predict_try_def ebind_def)

subsection \<open>Risk score and risk level\<close>

lemma calculate_risk_score_Inr:
  assumes "calculate_risk_score features probability = Inr s"
  shows "s = min (probability * 100
            * (if exceeds (dict_get features ''transaction_amount'' (VInt 0)) 1000 then 1.2
               else if exceeds (dict_get features ''transaction_amount'' (VInt 0)) 500 then 1.1 else 1)
            * (if py_eq1 (dict_get features ''is_first_transaction'' (VInt 0)) then 1.3 else 1)) 100"
proof -
  from assms obtain above_1000 above_500 where
    a: "py_gt (dict_get features ''transaction_amount'' (VInt 0)) 1000 = Inr above_1000"
    and b: "(if above_1000 then Inr False
             else py_gt (dict_get features ''transaction_amount'' (VInt 0)) 500) = Inr above_500"
    and s: "s = min (if py_eq1 (dict_get features ''is_first_transaction'' (VInt 0))
                     then (if above_1000 then probability * 100 * 1.2
                           else if above_500 then probability * 100 * 1.1 else probability * 100) * 1.3
                     else (if above_1000 then probability * 100 * 1.2
                           else if above_500 then probability * 100 * 1.1 else probability * 100)) 100"
    by (auto simp: calculate_risk_score_def ebind_Inr Let_def)
  have a': "above_1000 = exceeds (dict_get features ''transaction_amount'' (VInt 0)) 1000"
    using a by (rule py_gt_exceeds)
  have b': "\<not> above_1000 \<Longrightarrow> above_500 = exceeds (dict_get features ''transaction_amount'' (VInt 0)) 500"
    using b by (auto dest: py_gt_exceeds)
  show ?thesis
    unfolding s using a' b' by (cases above_1000) auto
qed

lemma determine_risk_level_iff:
  "(determine_risk_level s = CRITICAL \<longleftrightarrow> s \<ge> 90)"
  "(determine_risk_level s = HIGH \<longleftrightarrow> 70 \<le> s \<and> s < 90)"
  "(determine_risk_level s = MEDIUM \<longleftrightarrow> 30 \<le> s \<and> s < 70)"
  "(determine_risk_level s = LOW \<longleftrightarrow> s < 30)"
  by (auto simp: determine_risk_level_def)

lemma score_transaction_Inr:
  assumes "score_transaction P st user_history i transaction = (Inr r, st')"
  obtains history features is_fraud probability explanation risk_score where
    "history_for user_history (dict_get transaction ''user_id'' VNone) = Inr history"
    "(if feature_extractor st then extract_features P transaction history
      else extract_basic_features P transaction history) = Inr features"
    "predict P st features = (Inr (is_fraud, probability, explanation), st')"
    "calculate_risk_score features probability = Inr risk_score"
    "r_is_fraud r = is_fraud" "r_probability r = probability" "r_score r = risk_score"
    "r_level r = determine_risk_level risk_score"
    "r_recommended_action r = get_recommended_action is_fraud (determine_risk_level risk_score)"
    "r_explanation r = explanation"
    "r_features r = sanitize_features features"
    "r_transaction_id r = transaction_id_of i transaction"
proof -
  let ?ex = "ebind (history_for user_history (dict_get transaction ''user_id'' VNone)) (\<lambda>history.
             if feature_extractor st then extract_features P transaction history
             else extract_basic_features P transaction history)"
  from assms obtain features where ex: "?ex = Inr features"
    by (cases ?ex) (simp_all add: score_transaction_def Let_def)
  then obtain history where h: "history_for user_history (dict_get transaction ''user_id'' VNone) = Inr history"
    and f: "(if feature_extractor st then extract_features P transaction history
      else extract_basic_features P transaction history) = Inr features"
    by (auto simp: ebind_Inr)
  obtain pr st1 where p: "predict P st features = (pr, st1)" by (cases "predict P st features")
  from assms ex p obtain is_fraud probability explanation where
    pr: "pr = Inr (is_fraud, probability, explanation)"
    by (cases pr) (auto simp: score_transaction_def Let_def)
  from assms ex p pr obtain risk_score where
    rs: "calculate_risk_score features probability = Inr risk_score"
    by (cases "calculate_risk_score features probability") (auto simp: score_transaction_def Let_def)
  from assms ex p pr rs have st1: "st1 = st'"
    and r: "r = \<lparr>r_transaction_id = transaction_id_of i transaction,
                   r_user_id = dict_get transaction ''user_id'' VNone,
                   r_amount = dict_get transaction ''amount'' VNone,
                   r_timestamp = dict_get transaction ''timestamp'' (VStr (now_isoformat P)),
                   r_is_fraud = is_fraud,
                   r_probability = probability,
                   r_confidence = min (probability * 100) 100,
                   r_score = risk_score,
                   r_level = determine_risk_level risk_score,
                   r_factors = dict_get explanation ''risk_factors'' (VList []),
                   r_explanation = explanation,
                   r_recommended_action = get_recommended_action is_fraud (determine_risk_level risk_score),
                   r_features = sanitize_features features,
                   r_anomaly_detection =
                             (case anomaly_detector st1 of
                                Some detect \<Rightarrow> if model_loaded st1 then detect features else None
                              | None \<Rightarrow> None)\<rparr>"
    by (auto simp: score_transaction_def Let_def)
  show ?thesis
    by (rule that [OF h f _ rs]) (simp_all add: p pr st1 r)
qed

text \<open>
  Claim C4.  For every scored transaction, the risk score is the probability times 100,
  times 1.2 when the amount is above 1000 and otherwise times 1.1 when it is above 500,
  times 1.3 when the \<^verbatim>\<open>is_first_transaction\<close> feature equals 1, capped at 100; the risk
  level is CRITICAL exactly from 90 up, HIGH exactly in \<open>[70, 90)\<close>, MEDIUM exactly in
  \<open>[30, 70)\<close> and LOW exactly below 30.
\<close>

theorem risk_score_and_level:
  assumes "score_transaction P st user_history i transaction = (Inr r, st')"
  shows "\<exists>history features.
      history_for user_history (dict_get transaction ''user_id'' VNone) = Inr history \<and>
      (if feature_extractor st then extract_features P transaction history
       else extract_basic_features P transaction history) = Inr features \<and>
      r_score r = min (r_probability r * 100
           * (if exceeds (dict_get features ''transaction_amount'' (VInt 0)) 1000 then 1.2
              else if exceeds (dict_get features ''transaction_amount'' (VInt 0)) 500 then 1.1 else 1)
           * (if py_eq1 (dict_get features ''is_first_transaction'' (VInt 0)) then 1.3 else 1)) 100 \<and>
      (r_level r = CRITICAL \<longleftrightarrow> r_score r \<ge> 90) \<and>
      (r_level r = HIGH \<longleftrightarrow> 70 \<le> r_score r \<and> r_score r < 90) \<and>
      (r_level r = MEDIUM \<longleftrightarrow> 30 \<le> r_score r \<and> r_score r < 70) \<and>
      (r_level r = LOW \<longleftrightarrow> r_score r < 30)"
proof -
  from assms obtain history features is_fraud probability explanation risk_score where
    h: "history_for user_history (dict_get transaction ''user_id'' VNone) = Inr history"
    and f: "(if feature_extractor st then extract_features P transaction history
      else extract_basic_features P transaction history) = Inr features"
    and rs: "calculate_risk_score features probability = Inr risk_score"
    and r: "r_probability r = probability" "r_score r = risk_score"
      "r_level r = determine_risk_level risk_score"
    by (rule score_transaction_Inr)
  note eq = calculate_risk_score_Inr [OF rs]
  show ?thesis
    apply (rule exI [where x = history])
    apply (rule exI [where x = features])
    apply (intro conjI)
          apply (rule h)
         apply (rule f)
        apply (simp only: r eq)
       apply (simp_all only: r determine_risk_level_iff)
    done
qed

theorem risk_score_and_level_witness:
  "score_transaction night_platform fresh_predictor [] 0 example_transaction
     = (Inr example_result, fresh_predictor) \<and>
   (\<exists>history features.
      history_for [] (dict_get example_transaction ''user_id'' VNone) = Inr history \<and>
      (if feature_extractor fresh_predictor
       then extract_features night_platform example_transaction history
       else extract_basic_features night_platform example_transaction history) = Inr features \<and>
      r_score example_result = min (r_probability example_result * 100
           * (if exceeds (dict_get features ''transaction_amount'' (VInt 0)) 1000 then 1.2
              else if exceeds (dict_get features ''transaction_amount'' (VInt 0)) 500 then 1.1 else 1)
           * (if py_eq1 (dict_get features ''is_first_transaction'' (VInt 0)) then 1.3 else 1)) 100 \<and>
      (r_level example_result = CRITICAL \<longleftrightarrow> r_score example_result \<ge> 90) \<and>
      (r_level example_result = HIGH \<longleftrightarrow> 70 \<le> r_score example_result \<and> r_score example_result < 90) \<and>
      (r_level example_result = MEDIUM \<longleftrightarrow> 30 \<le> r_score example_result \<and> r_score example_result < 70) \<and>
      (r_level example_result = LOW \<longleftrightarrow> r_score example_result < 30))"
proof -
  have h: "score_transaction night_platform fresh_predictor [] 0 example_transaction
     = (Inr example_result, fresh_predictor)"
    unfolding example_result_def by (rule example_scored_night)
  from h risk_score_and_level [OF h] show ?thesis by (rule conjI)
qed

subsection \<open>The rule-fallback example\<close>

lemma predict_batch_single:
  "predict_batch P st [transaction] user_history
     = ([fst (batch_step P st user_history 0 transaction)], st)"
  by (simp add: predict_batch_eq)

lemma example_batch:
  assumes "\<not> model_loaded st" and "config st = default_config" and "feature_extractor st"
    and "np_log1p P (VFloat 999.99) = Inr lg"
    and "fromtimestamp P (clock_now P) = Some dt" and "dt_hour dt = 2"
  shows "predict_batch P st [example_transaction] user_history
           = ([Scored (example_result_at P 0 dt lg)], st)"
  by (simp add: predict_batch_single batch_step_entry example_scored [OF assms])

lemma example_result_fields:
  "r_factors (example_result_at P i dt lg)
     = VList [VStr ''NIGHT_TRANSACTION'', VStr ''SHORT_SESSION'', VStr ''NEW_USER_HIGH_AMOUNT'']"
  "dict_get (r_explanation (example_result_at P i dt lg)) ''method'' VNone = VStr ''rule_based''"
  "dict_get (r_explanation (example_result_at P i dt lg)) ''risk_score'' VNone = VInt 65"
  "r_probability (example_result_at P i dt lg) = 0.65"
  "r_is_fraud (example_result_at P i dt lg) = False"
  "r_score (example_result_at P i dt lg) = 92.95"
  "r_level (example_result_at P i dt lg) = CRITICAL"
  "action (r_recommended_action (example_result_at P i dt lg)) = ''BLOCK''"
  by (simp_all add: example_result_at_def dict_get_def)

text \<open>
  Claim C1, as the code has it.  With no model loaded, the default threshold and the
  feature extractor present, scoring the transaction with amount 999.99, \<^verbatim>\<open>is_first\<close> true
  and session duration 45 at a local hour of 2, with empty history, takes the rule-based
  path and fires exactly \<^verbatim>\<open>NIGHT_TRANSACTION\<close> (+15), \<^verbatim>\<open>SHORT_SESSION\<close> (+20) and
  \<^verbatim>\<open>NEW_USER_HIGH_AMOUNT\<close> (+30): rule score 65, probability 0.65, not fraud; the risk score
  is 65 times 1.1 times 1.3, that is 92.95, the level CRITICAL and the action BLOCK.
\<close>

theorem rule_fallback_example:
  assumes "\<not> model_loaded st" and "config st = default_config" and "feature_extractor st"
    and "np_log1p P (VFloat 999.99) = Inr lg"
    and "fromtimestamp P (clock_now P) = Some dt" and "dt_hour dt = 2"
  shows "\<exists>features r.
     extract_features P example_transaction [] = Inr features \<and>
     rule_hits features
       = Inr [(''NIGHT_TRANSACTION'', 15), (''SHORT_SESSION'', 20), (''NEW_USER_HIGH_AMOUNT'', 30)] \<and>
     predict_batch P st [example_transaction] [] = ([Scored r], st) \<and>
     dict_get (r_explanation r) ''method'' VNone = VStr ''rule_based'' \<and>
     r_factors r
       = VList [VStr ''NIGHT_TRANSACTION'', VStr ''SHORT_SESSION'', VStr ''NEW_USER_HIGH_AMOUNT''] \<and>
     dict_get (r_explanation r) ''risk_score'' VNone = VInt 65 \<and>
     r_probability r = 0.65 \<and>
     \<not> r_is_fraud r \<and>
     r_score r = 92.95 \<and>
     r_level r = CRITICAL \<and>
     action (r_recommended_action r) = ''BLOCK''"
proof (intro exI conjI)
  show "extract_features P example_transaction [] = Inr (example_features_at dt lg)"
    by (rule example_features_at_extracted [OF assms(4,5,6)])
  show "rule_hits (example_features_at dt lg)
       = Inr [(''NIGHT_TRANSACTION'', 15), (''SHORT_SESSION'', 20), (''NEW_USER_HIGH_AMOUNT'', 30)]"
    by (rule example_rule_hits)
  show "predict_batch P st [example_transaction] [] = ([Scored (example_result_at P 0 dt lg)], st)"
    by (rule example_batch [OF assms])
qed (simp_all only: example_result_fields not_False_eq_True)

theorem rule_fallback_example_witness:
  "\<not> model_loaded fresh_predictor \<and> config fresh_predictor = default_config \<and>
   feature_extractor fresh_predictor \<and>
   np_log1p night_platform (VFloat 999.99) = Inr (VNp (ln (1 + 999.99))) \<and>
   fromtimestamp night_platform (clock_now night_platform) = Some night_datetime \<and>
   dt_hour night_datetime = 2 \<and>
   (\<exists>features r.
     extract_features night_platform example_transaction [] = Inr features \<and>
     rule_hits features
       = Inr [(''NIGHT_TRANSACTION'', 15), (''SHORT_SESSION'', 20), (''NEW_USER_HIGH_AMOUNT'', 30)] \<and>
     predict_batch night_platform fresh_predictor [example_transaction] []
       = ([Scored r], fresh_predictor) \<and>
     dict_get (r_explanation r) ''method'' VNone = VStr ''rule_based'' \<and>
     r_factors r
       = VList [VStr ''NIGHT_TRANSACTION'', VStr ''SHORT_SESSION'', VStr ''NEW_USER_HIGH_AMOUNT''] \<and>
     dict_get (r_explanation r) ''risk_score'' VNone = VInt 65 \<and>
     r_probability r = 0.65 \<and>
     \<not> r_is_fraud r \<and>
     r_score r = 92.95 \<and>
     r_level r = CRITICAL \<and>
     action (r_recommended_action r) = ''BLOCK'')"
  using fresh_predictor_facts night_platform_facts
    rule_fallback_example [OF fresh_predictor_facts night_platform_facts]
  by (intro conjI)

lemma example_single_result:
  "single_result night_platform fresh_predictor example_transaction = Scored example_result"
  by (simp add: single_result_def example_result_def
        example_batch [OF fresh_predictor_facts night_platform_facts])

text \<open>The values the specification gives for this example (rule score 70, probability
  0.70, level HIGH, action REVIEW) are not the ones the code computes.\<close>

theorem rule_fallback_example_counterexample:
  "single_result night_platform fresh_predictor example_transaction = Scored example_result \<and>
   \<not> (dict_get (r_explanation example_result) ''risk_score'' VNone = VInt 70 \<and>
      r_probability example_result = 0.70 \<and>
      \<not> r_is_fraud example_result \<and>
      r_level example_result = HIGH \<and>
      action (r_recommended_action example_result) = ''REVIEW'')"
  by (simp add: example_single_result example_result_def example_result_fields)

subsection \<open>Witnesses for the batch loop and the fallback\<close>

theorem predict_batch_one_entry_per_transaction_witness:
  "(1::nat) < length [example_transaction, malformed_transaction, example_transaction] \<and>
   length (fst (predict_batch night_platform fresh_predictor
                  [example_transaction, malformed_transaction, example_transaction] [])) = 3 \<and>
   fst (predict_batch night_platform fresh_predictor
          [example_transaction, malformed_transaction, example_transaction] []) ! 1
     = Failed (VStr ''t2'') TypeError"
proof -
  let ?txs = "[example_transaction, malformed_transaction, example_transaction]"
  note th = predict_batch_one_entry_per_transaction [of night_platform fresh_predictor ?txs "[]"]
  have one: "(1::nat) < length ?txs" by simp
  from th have len: "length (fst (predict_batch night_platform fresh_predictor ?txs [])) = length ?txs"
    by (rule conjunct1)
  from th have "\<forall>i < length ?txs.
      fst (predict_batch night_platform fresh_predictor ?txs []) ! i
        = (case fst (score_transaction night_platform fresh_predictor [] i (?txs ! i)) of
             Inr result \<Rightarrow> Scored result
           | Inl e \<Rightarrow> Failed (transaction_id_of i (?txs ! i)) e)"
    by (rule conjunct2)
  from this [rule_format, OF one]
  have "fst (predict_batch night_platform fresh_predictor ?txs []) ! 1
          = Failed (transaction_id_of 1 malformed_transaction) TypeError"
    by (simp add: malformed_fails)
  then have e: "fst (predict_batch night_platform fresh_predictor ?txs []) ! 1
          = Failed (VStr ''t2'') TypeError"
    by (simp add: transaction_id_of_def malformed_transaction_def dict_get_def)
  from one len e show ?thesis by simp
qed

theorem predict_falls_back_to_rules_witness:
  "uses_model (predictor_with (Classifier failing_classifier)) \<and>
   model_probability (the (model (predictor_with (Classifier failing_classifier))))
       (ensure_feature_columns example_features) = Inl LibraryError \<and>
   predict night_platform (predictor_with (Classifier failing_classifier)) example_features
     = (rule_based_prediction (predictor_with (Classifier failing_classifier)) example_features,
        predictor_with (Classifier failing_classifier))"
proof -
  have u: "uses_model (predictor_with (Classifier failing_classifier))"
    by (simp add: uses_model_def predictor_with_def fresh_predictor_def artifact_truthy_def
          failing_classifier_def)
  have m: "model_probability (the (model (predictor_with (Classifier failing_classifier))))
       (ensure_feature_columns example_features) = Inl LibraryError"
    by (simp add: model_probability_def predictor_with_def failing_classifier_def)
  from u m predict_falls_back_to_rules [OF u m] show ?thesis by (intro conjI)
qed

subsection \<open>Sanitised features\<close>

lemma map_of_sanitize_entry:
  "map_of (sanitize_entry (k0, v0) acc) k =
     (if k = k0 \<and> \<not> is_complex v0
      then (if is_sensitive k0 then Some (VStr ''[REDACTED]'') else Some (unwrap_numpy v0))
      else map_of acc k)"
  by (simp add: sanitize_entry_def dict_set_def update_conv')

lemma map_of_fold_sanitize:
  assumes "distinct (map fst features)"
  shows "map_of (fold sanitize_entry features acc) k =
     (case map_of features k of
        None \<Rightarrow> map_of acc k
      | Some v \<Rightarrow> if is_complex v then map_of acc k
                  else if is_sensitive k then Some (VStr ''[REDACTED]'')
                  else Some (unwrap_numpy v))"
  using assms
proof (induction features arbitrary: acc)
  case Nil
  show ?case by simp
next
  case (Cons kv rest)
  obtain k0 v0 where kv: "kv = (k0, v0)" by (cases kv)
  from Cons.prems kv have d: "distinct (map fst rest)" and n: "k0 \<notin> fst ` set rest" by auto
  from n have none: "map_of rest k0 = None" by (simp add: map_of_eq_None_iff)
  show ?case
  proof (cases "k = k0")
    case True
    with none Cons.IH [OF d, of "sanitize_entry (k0, v0) acc"] show ?thesis
      by (simp add: kv map_of_sanitize_entry)
  next
    case False
    then have e: "map_of (sanitize_entry (k0, v0) acc) k = map_of acc k"
      by (simp add: map_of_sanitize_entry)
    from False Cons.IH [OF d, of "sanitize_entry (k0, v0) acc"] show ?thesis
      unfolding e by (simp add: kv)
  qed
qed

text \<open>
  Claim C10, as the code has it.  In the sanitised copy of a feature dictionary an entry
  whose value is a dict or a list is omitted, whatever its key; of the other entries, one
  whose lower-cased key contains \<^verbatim>\<open>password\<close>, \<^verbatim>\<open>token\<close>, \<^verbatim>\<open>secret\<close>, \<^verbatim>\<open>key\<close>, \<^verbatim>\<open>cvv\<close> or
  \<^verbatim>\<open>pin\<close> is mapped to \<^verbatim>\<open>'[REDACTED]'\<close> and every other one keeps its value, a NumPy
  scalar unwrapped.  No key is added.
\<close>

theorem sanitize_features_by_value_then_key:
  assumes "distinct (map fst features)"
  shows "map_of (sanitize_features features) k =
     (case map_of features k of
        None \<Rightarrow> None
      | Some v \<Rightarrow> if is_complex v then None
                  else if is_sensitive k then Some (VStr ''[REDACTED]'')
                  else Some (unwrap_numpy v))"
  unfolding sanitize_features_def map_of_fold_sanitize [OF assms]
  by (simp split: option.splits)

lemma sample_sensitive:
  "is_sensitive ''session_token''" "is_sensitive ''api_keys''"
  "\<not> is_sensitive ''amount_log''" "\<not> is_sensitive ''hour_of_day''"
  by (simp_all add: is_sensitive_def sensitive_patterns_def lower_def lower_char_def)

theorem sanitize_features_by_value_then_key_witness:
  "distinct (map fst sample_features) \<and>
   map_of (sanitize_features sample_features) ''session_token'' = Some (VStr ''[REDACTED]'') \<and>
   map_of (sanitize_features sample_features) ''api_keys'' = None \<and>
   map_of (sanitize_features sample_features) ''amount_log'' = Some (VFloat 2) \<and>
   map_of (sanitize_features sample_features) ''device_info'' = None \<and>
   map_of (sanitize_features sample_features) ''hour_of_day'' = Some (VInt 2)"
proof -
  have d: "distinct (map fst sample_features)" by (simp add: sample_features_def)
  note th = sanitize_features_by_value_then_key [OF d]
  show ?thesis
    using d th [of "''session_token''"] th [of "''api_keys''"] th [of "''amount_log''"]
      th [of "''device_info''"] th [of "''hour_of_day''"]
    by (simp add: sample_features_def sample_sensitive)
qed

text \<open>A sensitive key that holds a list is dropped, not redacted: the type of the value is
  tested first.\<close>

theorem sanitize_features_counterexample:
  "is_sensitive ''api_keys'' \<and>
   map_of (sanitize_features [(''api_keys'', VList [VStr ''k1''])]) ''api_keys''
     \<noteq> Some (VStr ''[REDACTED]'')"
  by (simp add: sample_sensitive sanitize_features_def sanitize_entry_def)

subsection \<open>First-time users\<close>

lemma empty_history_ratio_absent:
  assumes "extract_features P transaction [] = Inr features"
  shows "map_of features ''amount_deviation_ratio'' = None"
proof -
  from assms obtain f1 b t d derived where
    f1: "extract_transaction_features P transaction = Inr f1"
    and b0: "([]::pydict list) = [] \<Longrightarrow> b = []"
    and t: "extract_temporal_features P transaction = Inr t"
    and d: "extract_technical_features P transaction = Inr d"
    and der: "calculate_derived_features (dict_update (dict_update (dict_update f1 b) t) d) = Inr derived"
    and feat: "features = dict_update (dict_update (dict_update (dict_update f1 b) t) d) derived"
    by (rule extract_features_Inr) blast
  from b0 have b: "b = []" by simp
  from t obtain dt where tk: "map_of (rev t) ''amount_deviation_ratio'' = None"
    by (rule temporal_features_Inr)
  have "map_of features ''amount_deviation_ratio'' = map_of (dict_update f1 []) ''amount_deviation_ratio''"
    unfolding feat b
    by (simp only: lookup_skip [OF derived_keys(1) [OF der [unfolded b]]]
          lookup_skip [OF technical_features_Inr(5) [OF d]] lookup_skip [OF tk])
  also have "\<dots> = None"
    by (simp add: dict_update_def transaction_features_Inr(3) [OF f1])
  finally show ?thesis .
qed

text \<open>
  Claim C2, evaluated on the code.  For the reference transaction with an empty history,
  the feature vector \<^verbatim>\<open>extract_features\<close> returns has no \<^verbatim>\<open>amount_deviation_ratio\<close> entry (the
  sentinel 10 is not stored), and the prediction stage reads the key with its default 1.
  By \<open>empty_history_ratio_absent\<close> this holds for every transaction with an empty
  history; by \<open>basic_features_empty_history_ratio\<close> the sibling
  \<^verbatim>\<open>_extract_basic_features\<close> stores 10 there.
\<close>

theorem first_time_user_has_no_deviation_ratio:
  "extract_features night_platform example_transaction [] = Inr example_features \<and>
   map_of example_features ''amount_deviation_ratio'' = None \<and>
   dict_get example_features ''amount_deviation_ratio'' (VInt 1) = VInt 1"
proof -
  note e = example_features_extracted
  from empty_history_ratio_absent [OF e] have n: "map_of example_features ''amount_deviation_ratio'' = None" .
  then have "dict_get example_features ''amount_deviation_ratio'' (VInt 1) = VInt 1"
    by (simp add: dict_get_def)
  with e n show ?thesis by simp
qed

lemma basic_features_empty_history_ratio:
  assumes "extract_basic_features P transaction [] = Inr features"
  shows "map_of features ''amount_deviation_ratio'' = Some (VInt 10)"
proof -
  from assms obtain f1 h derived where
    h: "basic_history_features P transaction [] = Inr h"
    and der: "basic_derived_features (dict_update f1 h) = Inr derived"
    and feat: "features = dict_update (dict_update f1 h) derived"
    by (auto simp: extract_basic_features_def ebind_Inr Let_def)
  from h have hk: "map_of (rev h) ''amount_deviation_ratio'' = Some (VInt 10)"
    by (auto simp: basic_history_features_def)
  from der have dk: "map_of (rev derived) ''amount_deviation_ratio'' = None"
    by (auto simp: basic_derived_features_def ebind_Inr Let_def)
  show ?thesis
    unfolding feat by (simp only: lookup_skip [OF dk] lookup_hit [OF hk])
qed

subsection \<open>Bounds on probability and risk score\<close>

lemma rule_hits_nonneg:
  assumes "rule_hits features = Inr hits"
  shows "0 \<le> sum_list (map snd hits)"
  using assms
  unfolding rule_hits_def Let_def ebind_Inr
  apply (elim exE conjE)
  apply (simp only: sum.inject)
  apply (erule_tac t = hits in subst)
  apply (simp only: map_append sum_list_append)
  apply (intro add_nonneg_nonneg)
       apply simp_all
  done

lemma rule_based_probability_bounds:
  assumes "rule_based_prediction st features = Inr (is_fraud, p, explanation)"
  shows "0 \<le> p \<and> p \<le> 1"
proof -
  from assms obtain hits where h: "rule_hits features = Inr hits"
    and p: "p = min (real_of_int (sum_list (map snd hits)) / 100) 1.0"
    by (auto simp: rule_based_prediction_def ebind_Inr Let_def)
  from rule_hits_nonneg [OF h] show ?thesis unfolding p by simp
qed

lemma model_probability_bounds:
  assumes "gives_probabilities st" and "model st = Some m"
    and "model_probability m row = Inr p"
  shows "0 \<le> p \<and> p \<le> 1"
  using assms
  by (auto simp: gives_probabilities_def model_probability_def
      split: artifact.splits option.splits if_splits)

lemma predict_try_probability_bounds:
  assumes "gives_probabilities st"
    and "predict_try P st features = Inr (is_fraud, p, explanation)"
  shows "0 \<le> p \<and> p \<le> 1"
proof (cases "uses_model st")
  case True
  then obtain m where m: "model st = Some m"
    by (auto simp: uses_model_def split: option.splits)
  with True assms(2) have "model_probability m (ensure_feature_columns features) = Inr p"
    by (auto simp: predict_try_def ebind_Inr Let_def)
  with assms(1) m show ?thesis by (rule model_probability_bounds)
next
  case False
  with assms(2) have "rule_based_prediction st features = Inr (is_fraud, p, explanation)"
    by (simp add: predict_try_def)
  then show ?thesis by (rule rule_based_probability_bounds)
qed

lemma risk_score_bounds:
  assumes "calculate_risk_score features p = Inr s" and "0 \<le> p"
  shows "0 \<le> s \<and> s \<le> 100"
  unfolding calculate_risk_score_Inr [OF assms(1)] using assms(2) by simp

lemma model_probability_cases:
  assumes "model_probability m row = Inr p"
  shows "(0 \<le> p \<and> p \<le> 1) \<or>
         (\<exists>c proba. m = Classifier c \<and> clf_predict_proba c = Some proba \<and> proba row = Some p)"
  using assms
  by (auto simp: model_probability_def split: artifact.splits option.splits if_splits)

lemma predict_try_probability_cases:
  assumes "predict_try P st features = Inr (is_fraud, p, explanation)"
  shows "(0 \<le> p \<and> p \<le> 1) \<or> from_predict_proba st features p"
proof (cases "uses_model st")
  case True
  then obtain m where m: "model st = Some m"
    by (auto simp: uses_model_def split: option.splits)
  with True assms have "model_probability m (ensure_feature_columns features) = Inr p"
    by (auto simp: predict_try_def ebind_Inr Let_def)
  from model_probability_cases [OF this] True m show ?thesis
    by (auto simp: from_predict_proba_def)
next
  case False
  with assms have "rule_based_prediction st features = Inr (is_fraud, p, explanation)"
    by (simp add: predict_try_def)
  then show ?thesis by (simp add: rule_based_probability_bounds)
qed

lemma risk_score_upper_bound:
  assumes "calculate_risk_score features p = Inr s"
  shows "s \<le> 100"
  unfolding calculate_risk_score_Inr [OF assms] by simp

text \<open>
  Claim C8, as the code has it.  Whenever \<^verbatim>\<open>predict\<close> returns a prediction, its probability
  lies in \<open>[0, 1]\<close> on the rule-based path, also when a failure of the model falls back to
  the rules, and for a classifier that only predicts labels; otherwise it is the number
  the loaded classifier's \<^verbatim>\<open>predict_proba\<close> returned, passed on as it is.  The risk score
  computed from the probability is at most 100, and at least 0 whenever the probability
  is at least 0.
\<close>

theorem probability_and_risk_score_ranges:
  assumes "predict P st features = (Inr (is_fraud, p, explanation), st')"
  shows "((0 \<le> p \<and> p \<le> 1) \<or> from_predict_proba st features p) \<and>
         (\<forall>s. calculate_risk_score features p = Inr s \<longrightarrow> s \<le> 100 \<and> (0 \<le> p \<longrightarrow> 0 \<le> s))"
proof (intro conjI allI impI)
  show "(0 \<le> p \<and> p \<le> 1) \<or> from_predict_proba st features p"
  proof (cases "predict_try P st features")
    case (Inr r)
    with assms have "predict_try P st features = Inr (is_fraud, p, explanation)"
      by (auto simp: predict_def)
    then show ?thesis by (rule predict_try_probability_cases)
  next
    case (Inl e)
    with assms have "rule_based_prediction st features = Inr (is_fraud, p, explanation)"
      by (auto simp: predict_def)
    then show ?thesis by (simp add: rule_based_probability_bounds)
  qed
next
  fix s assume s: "calculate_risk_score features p = Inr s"
  then show "s \<le> 100" by (rule risk_score_upper_bound)
  assume "0 \<le> p"
  with s show "0 \<le> s" by (simp add: risk_score_bounds)
qed

text \<open>With a classifier that keeps the contract of \<^verbatim>\<open>predict_proba\<close> the probability is
  in \<open>[0, 1]\<close> on every path.\<close>

lemma probabilistic_classifier_bounds:
  assumes "gives_probabilities st"
    and "predict P st features = (Inr (is_fraud, p, explanation), st')"
  shows "0 \<le> p \<and> p \<le> 1"
proof (cases "predict_try P st features")
  case (Inr r)
  with assms(2) have "predict_try P st features = Inr (is_fraud, p, explanation)"
    by (auto simp: predict_def)
  with assms(1) show ?thesis by (rule predict_try_probability_bounds)
next
  case (Inl e)
  with assms(2) have "rule_based_prediction st features = Inr (is_fraud, p, explanation)"
    by (auto simp: predict_def)
  then show ?thesis by (rule rule_based_probability_bounds)
qed

lemma rule_path_predict:
  "predict night_platform fresh_predictor example_features
     = (Inr (False, 0.65, r_explanation example_result), fresh_predictor)"
  unfolding example_features_def example_result_def
  by (rule example_predict [OF fresh_predictor_facts(1,2)])

theorem probability_and_risk_score_ranges_witness:
  "predict night_platform fresh_predictor example_features
     = (Inr (False, 0.65, r_explanation example_result), fresh_predictor) \<and>
   calculate_risk_score example_features 0.65 = Inr 92.95 \<and>
   (0::real) \<le> 0.65 \<and> (0.65::real) \<le> 1 \<and>
   (92.95::real) \<le> 100 \<and> (0::real) \<le> 92.95"
proof -
  have r: "calculate_risk_score example_features 0.65 = Inr 92.95"
    by (simp add: example_features_def example_risk_score)
  have n: "\<not> from_predict_proba fresh_predictor example_features 0.65"
    by (simp add: from_predict_proba_def uses_model_def fresh_predictor_def)
  note th = probability_and_risk_score_ranges [OF rule_path_predict]
  from th have "(0::real) \<le> 0.65 \<and> (0.65::real) \<le> 1 \<or>
      from_predict_proba fresh_predictor example_features 0.65"
    by (rule conjunct1)
  with n have a: "(0::real) \<le> 0.65 \<and> (0.65::real) \<le> 1"
    by blast
  from th have "\<forall>s. calculate_risk_score example_features 0.65 = Inr s
       \<longrightarrow> s \<le> 100 \<and> (0 \<le> (0.65::real) \<longrightarrow> 0 \<le> s)"
    by (rule conjunct2)
  from this [rule_format, OF r]
  have b: "(92.95::real) \<le> 100 \<and> ((0::real) \<le> 0.65 \<longrightarrow> (0::real) \<le> 92.95)" .
  from b have b1: "(92.95::real) \<le> 100" by (rule conjunct1)
  from b a have b2: "(0::real) \<le> 92.95" by (elim conjE impE)
  from a have a1: "(0::real) \<le> 0.65" and a2: "(0.65::real) \<le> 1"
    by (rule conjunct1, rule conjunct2)
  show ?thesis
    by (rule conjI [OF rule_path_predict conjI [OF r conjI [OF a1 conjI [OF a2 conjI [OF b1 b2]]]]])
qed

lemma example_explain_prediction_at:
  assumes "p \<noteq> 0"
  shows "explain_prediction night_platform example_features p = Inr (example_model_explanation_at p)"
  using assms
  by (simp add: explain_prediction_def explain_items_def flag_set_def example_features_def
       example_features_at_def dict_get_def py_eq1_def ebind_def py_format_def night_platform_def
       int_flag_def night_datetime_def example_model_explanation_at_def)

lemma example_model_predict_at:
  assumes "p \<noteq> 0"
  shows "predict night_platform (predictor_with (Classifier (constant_classifier p))) example_features
     = (Inr (0.8 \<le> p, p, example_model_explanation_at p),
        predictor_with (Classifier (constant_classifier p)))"
proof -
  have u: "uses_model (predictor_with (Classifier (constant_classifier p)))"
    by (simp add: uses_model_def predictor_with_def fresh_predictor_def artifact_truthy_def
          constant_classifier_def)
  have m: "model_probability (the (model (predictor_with (Classifier (constant_classifier p))))) row
             = Inr p" for row
    by (simp add: model_probability_def predictor_with_def constant_classifier_def)
  have t: "meets_threshold (config (predictor_with (Classifier (constant_classifier p)))) p
             = Inr (0.8 \<le> p)"
    by (simp add: meets_threshold_def predictor_with_def fresh_predictor_def default_config_def)
  show ?thesis
    unfolding predict_def predict_try_def Let_def
    by (simp only: u m t if_True ebind_def sum.case example_explain_prediction_at [OF assms])
qed

text \<open>Nothing clamps what the classifier returns: a classifier answering \<open>-1/2\<close> gives the
  probability \<open>-1/2\<close> and the risk score \<open>-71.5\<close>.\<close>

theorem probability_and_risk_score_ranges_counterexample:
  "predict night_platform (predictor_with (Classifier (constant_classifier (- 1 / 2))))
       example_features
     = (Inr (False, - 1 / 2, example_model_explanation_at (- 1 / 2)),
        predictor_with (Classifier (constant_classifier (- 1 / 2)))) \<and>
   calculate_risk_score example_features (- 1 / 2) = Inr (- 143 / 2) \<and>
   \<not> (0::real) \<le> - 1 / 2 \<and> \<not> (0::real) \<le> - 143 / 2"
proof -
  have "predict night_platform (predictor_with (Classifier (constant_classifier (- 1 / 2))))
       example_features
     = (Inr ((0.8::real) \<le> - 1 / 2, - 1 / 2, example_model_explanation_at (- 1 / 2)),
        predictor_with (Classifier (constant_classifier (- 1 / 2))))"
    by (rule example_model_predict_at) simp
  moreover have "((0.8::real) \<le> - 1 / 2) = False" by simp
  ultimately have p: "predict night_platform (predictor_with (Classifier (constant_classifier (- 1 / 2))))
       example_features
     = (Inr (False, - 1 / 2, example_model_explanation_at (- 1 / 2)),
        predictor_with (Classifier (constant_classifier (- 1 / 2))))"
    by (simp only:)
  have r: "calculate_risk_score example_features (- 1 / 2) = Inr (- 143 / 2)"
    by (simp add: example_features_def example_risk_score)
  from p r show ?thesis by simp
qed

subsection \<open>Saving and loading\<close>

lemma save_model_True:
  assumes "save_model st fs path = (True, fs')"
  obtains m where "model st = Some m" "artifact_truthy m" "files fs' path = Some m"
  using assms
  by (auto simp: save_model_def split: option.splits if_splits)

lemma trainer_save_model_True:
  assumes "trainer_save_model P tr mdl path names fs = (True, fs')"
  shows "files fs' path = Some (ModelInfo \<lparr>mi_model = mdl, mi_feature_names = names,
            mi_trained_at = now_isoformat P, mi_model_type = clf_type_name mdl,
            mi_config = tr_config tr\<rparr>)"
  using assms
  by (auto simp: trainer_save_model_def Let_def split: if_splits)

lemma predict_depends_on_model_and_config:
  assumes "model st2 = model st" "model_loaded st2 = model_loaded st" "config st2 = config st"
  shows "fst (predict P st2 features) = fst (predict P st features)"
proof -
  have u: "uses_model st2 = uses_model st" by (simp add: uses_model_def assms)
  have r: "rule_based_prediction st2 features = rule_based_prediction st features"
    by (simp add: rule_based_prediction_def assms)
  have t: "predict_try P st2 features = predict_try P st features"
    by (simp add: predict_try_def u r assms)
  show ?thesis
    by (simp add: predict_def t r split: sum.splits)
qed

lemma predict_without_model_loaded:
  assumes "\<not> model_loaded st"
  shows "predict P st features = (rule_based_prediction st features, st)"
  using assms by (simp add: predict_def predict_try_def uses_model_def split: sum.splits)

text \<open>
  Claim C5, as the code has it.  When saving succeeds, loading from the same path gives
  back what was written: \<^verbatim>\<open>FraudPredictor.load_model\<close> installs the very object
  \<^verbatim>\<open>save_model\<close> pickled and sets \<^verbatim>\<open>model_loaded\<close>, so a predictor with the same
  configuration that loads the file predicts as the saving predictor does with its
  \<^verbatim>\<open>model_loaded\<close> flag set, which is how the saving predictor itself predicts whenever its
  flag is set (a predictor whose flag a failed load has cleared still saves its model, and
  predicts by the rules);
  \<^verbatim>\<open>FraudModelTrainer.load_model\<close> returns and records the classifier, the feature names,
  the training timestamp and the model type that \<^verbatim>\<open>_save_model\<close> wrote.  The training
  configuration is written into the file, and loading leaves the configuration of the
  loading trainer as it was.
\<close>

theorem save_then_load_round_trip:
  "(save_model st fs path = (True, fs') \<longrightarrow>
      (\<exists>m. model st = Some m \<and>
           load_model st2 fs' path
             = (True, st2\<lparr>model := Some m, model_loaded := True, model_path := Some path\<rparr>)) \<and>
      (config st2 = config st \<longrightarrow>
         (\<forall>features. fst (predict P (snd (load_model st2 fs' path)) features)
                       = fst (predict P (st\<lparr>model_loaded := True\<rparr>) features)) \<and>
         (model_loaded st \<longrightarrow>
            (\<forall>features. fst (predict P (snd (load_model st2 fs' path)) features)
                          = fst (predict P st features))))) \<and>
   (trainer_save_model P tr mdl path names fs = (True, fs') \<longrightarrow>
      fst (trainer_load_model tr2 fs' path)
        = LoadOk (clf_type_name mdl) names (now_isoformat P) mdl \<and>
      tr_best_model (snd (trainer_load_model tr2 fs' path))
        = Some \<lparr>bm_model_type = clf_type_name mdl, bm_model = mdl, bm_feature_names = names,
                bm_trained_at = now_isoformat P, bm_model_path = path\<rparr> \<and>
      tr_config (snd (trainer_load_model tr2 fs' path)) = tr_config tr2)"
proof (intro conjI impI allI)
  assume s: "save_model st fs path = (True, fs')"
  then obtain m where m: "model st = Some m" "files fs' path = Some m"
    by (rule save_model_True)
  have l: "load_model st2 fs' path
             = (True, st2\<lparr>model := Some m, model_loaded := True, model_path := Some path\<rparr>)"
    by (simp add: load_model_def m)
  with m show "\<exists>m. model st = Some m \<and>
           load_model st2 fs' path
             = (True, st2\<lparr>model := Some m, model_loaded := True, model_path := Some path\<rparr>)"
    by blast
  assume c: "config st2 = config st"
  show "fst (predict P (snd (load_model st2 fs' path)) features)
          = fst (predict P (st\<lparr>model_loaded := True\<rparr>) features)" for features
    unfolding l snd_conv
    by (rule predict_depends_on_model_and_config) (simp_all add: m c)
  assume "model_loaded st"
  then show "fst (predict P (snd (load_model st2 fs' path)) features)
          = fst (predict P st features)" for features
    unfolding l snd_conv
    by (intro predict_depends_on_model_and_config) (simp_all add: m c)
next
  assume s: "trainer_save_model P tr mdl path names fs = (True, fs')"
  note f = trainer_save_model_True [OF s]
  show "fst (trainer_load_model tr2 fs' path)
        = LoadOk (clf_type_name mdl) names (now_isoformat P) mdl"
    by (simp add: trainer_load_model_def f)
  show "tr_best_model (snd (trainer_load_model tr2 fs' path))
        = Some \<lparr>bm_model_type = clf_type_name mdl, bm_model = mdl, bm_feature_names = names,
                bm_trained_at = now_isoformat P, bm_model_path = path\<rparr>"
    by (simp add: trainer_load_model_def f)
  show "tr_config (snd (trainer_load_model tr2 fs' path)) = tr_config tr2"
    by (simp add: trainer_load_model_def f)
qed

lemma models_path_writable: "can_write empty_filesystem ''models/fraud_model.pkl''"
  by (simp add: can_write_def dirname_def empty_filesystem_def)

lemma example_save_model:
  "save_model (predictor_with (Classifier (constant_classifier 0.93))) empty_filesystem
       ''models/fraud_model.pkl''
     = (True, snd (save_model (predictor_with (Classifier (constant_classifier 0.93)))
                     empty_filesystem ''models/fraud_model.pkl''))"
  by (simp add: save_model_def predictor_with_def models_path_writable artifact_truthy_def
        constant_classifier_def)

lemma example_trainer_save_model:
  "trainer_save_model night_platform (new_trainer (trainer_config 0.3)) (constant_classifier 0.93)
       ''models/fraud_model.pkl'' [''transaction_amount'', ''amount_log''] empty_filesystem
     = (True, snd (trainer_save_model night_platform (new_trainer (trainer_config 0.3))
                     (constant_classifier 0.93) ''models/fraud_model.pkl''
                     [''transaction_amount'', ''amount_log''] empty_filesystem))"
  by (simp add: trainer_save_model_def models_path_writable)

theorem save_then_load_round_trip_witness:
  "save_model (predictor_with (Classifier (constant_classifier 0.93))) empty_filesystem
       ''models/fraud_model.pkl''
     = (True, snd (save_model (predictor_with (Classifier (constant_classifier 0.93)))
                     empty_filesystem ''models/fraud_model.pkl'')) \<and>
   config fresh_predictor = config (predictor_with (Classifier (constant_classifier 0.93))) \<and>
   model_loaded (predictor_with (Classifier (constant_classifier 0.93))) \<and>
   fst (predict night_platform
          (snd (load_model fresh_predictor
                  (snd (save_model (predictor_with (Classifier (constant_classifier 0.93)))
                          empty_filesystem ''models/fraud_model.pkl''))
                  ''models/fraud_model.pkl''))
          example_features)
     = fst (predict night_platform
              ((predictor_with (Classifier (constant_classifier 0.93)))\<lparr>model_loaded := True\<rparr>)
              example_features) \<and>
   fst (predict night_platform
          (snd (load_model fresh_predictor
                  (snd (save_model (predictor_with (Classifier (constant_classifier 0.93)))
                          empty_filesystem ''models/fraud_model.pkl''))
                  ''models/fraud_model.pkl''))
          example_features)
     = fst (predict night_platform (predictor_with (Classifier (constant_classifier 0.93)))
              example_features) \<and>
   trainer_save_model night_platform (new_trainer (trainer_config 0.3)) (constant_classifier 0.93)
       ''models/fraud_model.pkl'' [''transaction_amount'', ''amount_log''] empty_filesystem
     = (True, snd (trainer_save_model night_platform (new_trainer (trainer_config 0.3))
                     (constant_classifier 0.93) ''models/fraud_model.pkl''
                     [''transaction_amount'', ''amount_log''] empty_filesystem)) \<and>
   fst (trainer_load_model (new_trainer (trainer_config 0.2))
          (snd (trainer_save_model night_platform (new_trainer (trainer_config 0.3))
                  (constant_classifier 0.93) ''models/fraud_model.pkl''
                  [''transaction_amount'', ''amount_log''] empty_filesystem))
          ''models/fraud_model.pkl'')
     = LoadOk (clf_type_name (constant_classifier 0.93)) [''transaction_amount'', ''amount_log'']
         (now_isoformat night_platform) (constant_classifier 0.93)"
proof -
  let ?sp = "predictor_with (Classifier (constant_classifier 0.93))"
  let ?path = "''models/fraud_model.pkl''"
  let ?fsP = "snd (save_model ?sp empty_filesystem ?path)"
  let ?names = "[''transaction_amount'', ''amount_log'']"
  let ?tr = "new_trainer (trainer_config 0.3)"
  let ?fsT = "snd (trainer_save_model night_platform ?tr (constant_classifier 0.93) ?path ?names
                     empty_filesystem)"
  have ml: "model_loaded ?sp" and cf: "config fresh_predictor = config ?sp"
    by (simp_all add: predictor_with_def)
  note c = save_then_load_round_trip [where st = ?sp and fs = empty_filesystem and path = ?path
      and fs' = ?fsP and ?st2.0 = fresh_predictor and P = night_platform,
      THEN conjunct1, rule_format, OF example_save_model, THEN conjunct2, rule_format, OF cf]
  note p1 = c [THEN conjunct1, rule_format, of example_features]
  note p2 = c [THEN conjunct2, rule_format, OF ml, of example_features]
  note t = save_then_load_round_trip [where fs = empty_filesystem and path = ?path
      and fs' = ?fsT and P = night_platform and tr = ?tr and mdl = "constant_classifier 0.93"
      and names = ?names and ?tr2.0 = "new_trainer (trainer_config 0.2)",
      THEN conjunct2, rule_format, OF example_trainer_save_model, THEN conjunct1]
  from example_save_model cf ml p1 p2 example_trainer_save_model t show ?thesis
    by (intro conjI)
qed

text \<open>A trainer that loads a file written under another configuration keeps its own
  configuration: the fourth field is not restored.\<close>

theorem save_then_load_round_trip_counterexample:
  "fst (trainer_save_model night_platform (new_trainer (trainer_config 0.3))
          (constant_classifier 0.93) ''models/fraud_model.pkl'' [''transaction_amount'']
          empty_filesystem) \<and>
   tr_config (snd (trainer_load_model (new_trainer (trainer_config 0.2))
                (snd (trainer_save_model night_platform (new_trainer (trainer_config 0.3))
                        (constant_classifier 0.93) ''models/fraud_model.pkl''
                        [''transaction_amount''] empty_filesystem))
                ''models/fraud_model.pkl''))
     \<noteq> tr_config (new_trainer (trainer_config 0.3))"
  by (simp add: trainer_save_model_def trainer_load_model_def models_path_writable
        new_trainer_def trainer_config_def)

text \<open>Two further facts about persistence: a path without a directory part cannot be
  saved to, and a predictor that holds the dictionary the trainer pickles predicts by
  the rules.\<close>

lemma save_model_bare_file_name_fails:
  assumes "dirname path = []"
  shows "save_model st fs path = (False, fs)"
  using assms by (simp add: save_model_def can_write_def split: option.splits)

lemma bare_file_name: "dirname ''fraud_model.pkl'' = []"
  by (simp add: dirname_def)

lemma trainer_artifact_in_predictor:
  assumes "model st = Some (ModelInfo info)" and "model_loaded st"
  shows "predict P st features = (rule_based_prediction st features, st)"
  using assms
  by (simp add: predict_def predict_try_def uses_model_def artifact_truthy_def
        model_probability_def ebind_def)

end
